theory Spec2Isabelle
  imports Complex_Main
begin

section \<open>Flight attribute derivation (analysis/flight\_attribute.py)\<close>

text \<open>
  A shallow embedding of the derive methods of the flight attribute nodes. Every derive
  method is a function from its bound dependencies to the trace of what it does to the
  outside (the calls of \<open>set_flight_attr\<close> and of \<open>logging\<close>, in order) and the way the
  body was left: by a \<open>return\<close> statement, by running to its end, or by an exception.
\<close>

subsection \<open>Data model\<close>

text \<open>
  A Python \<open>slice(start, stop)\<close> in sample-index space. Sample indices are natural
  numbers; sampled values and key point values are Python floats, modelled as reals
  (a finite float is a real; NaN is not modelled).
\<close>

record slice =
  start :: nat
  stop :: nat

text \<open>The entries of a key point value node, of a key time instance node and of a section node.\<close>

record key_point_value =
  kpv_index :: nat
  kpv_value :: real

record key_time_instance =
  kti_index :: nat

record section_entry =
  section_slice :: slice

text \<open>A sampled parameter: the code reads its \<open>array\<close> only.\<close>

record parameter =
  array :: "real list"

text \<open>An attribute object \<open>A(name, value)\<close>; the value may be Python's \<open>None\<close>.\<close>

datatype 'a attribute = Attribute (attr_value: "'a option")

text \<open>
  The exceptions of the model, the severity of a log record, and the events of a trace.
  \<open>NotFoundError\<close> is the exception of the airport and runway lookups.
\<close>

datatype error = TypeError | ValueError | IndexError | AttributeError | NotFoundError

datatype level = WARNING | INFO

datatype 'v event = Set_flight_attr 'v | Logging level

text \<open>
  How a block of statements was left: by a \<open>return\<close> statement, by running to its end
  (control goes on with the statement after the block), or by an exception.
\<close>

datatype flow = Returned | Completed | Raised error

type_synonym 'v run = "'v event list \<times> flow"

text \<open>The values set by a run, in order.\<close>

fun commits :: "'v event list \<Rightarrow> 'v list" where
  "commits [] = []"
| "commits (Set_flight_attr v # es) = v # commits es"
| "commits (Logging l # es) = commits es"

subsection \<open>Truthiness\<close>

text \<open>
  A dependency that is not available is bound to \<open>None\<close>; a node is a list, so a node
  that is available is false when it is empty. A parameter object is true when bound,
  and so is an entry of a node (a key point value, an instant, a section): a test such
  as \<open>not first_autopilot1\<close> asks whether the query gave \<open>None\<close>.
\<close>

fun truthy :: "'a list option \<Rightarrow> bool" where
  "truthy None = False"
| "truthy (Some xs) = (xs \<noteq> [])"

text \<open>The entries of a node that may be unbound: none when it is unbound.\<close>

fun entries :: "'a list option \<Rightarrow> 'a list" where
  "entries None = []"
| "entries (Some xs) = xs"

text \<open>A float is false exactly when it is zero.\<close>

definition nonzero :: "real \<Rightarrow> bool" where
  "nonzero x = (x \<noteq> 0)"

subsection \<open>Queries on nodes\<close>

text \<open>
  Modelled from the spec: the node classes (analysis/node.py) are not among the sources.
  Section 3 gives a section the interval \<open>[start, stop)\<close> in sample-index space, and
  section 6 gives the query surface: \<open>get(within_interval)\<close> is the list of matches,
  \<open>get_first\<close> and \<open>get_last\<close> are a match or absent. An entry is within a slice
  when its index is in \<open>[start, stop)\<close>.
\<close>

definition within_slice :: "slice \<Rightarrow> nat \<Rightarrow> bool" where
  "within_slice sl i = (start sl \<le> i \<and> i < stop sl)"

definition get_within :: "('a \<Rightarrow> nat) \<Rightarrow> slice \<Rightarrow> 'a list \<Rightarrow> 'a list" where
  "get_within key sl xs = filter (\<lambda>x. within_slice sl (key x)) xs"

text \<open>
  Modelled from the spec: \<open>get_first\<close> is the earliest entry and \<open>get_last\<close> the latest
  one, by the key given (the index of an instant or of a key point value, the start or
  the stop of a section's slice); among equal keys the one that stands first in the
  node. An empty node has neither (Python's \<open>None\<close>).
\<close>

fun get_first :: "('a \<Rightarrow> nat) \<Rightarrow> 'a list \<Rightarrow> 'a option" where
  "get_first key [] = None"
| "get_first key (x # xs) =
     (case get_first key xs of
        None \<Rightarrow> Some x
      | Some y \<Rightarrow> if key y < key x then Some y else Some x)"

fun get_last :: "('a \<Rightarrow> nat) \<Rightarrow> 'a list \<Rightarrow> 'a option" where
  "get_last key [] = None"
| "get_last key (x # xs) =
     (case get_last key xs of
        None \<Rightarrow> Some x
      | Some y \<Rightarrow> if key x < key y then Some y else Some x)"

text \<open>
  \<open>array[slice]\<close> and \<open>array.ptp()\<close> of numpy: the samples from \<open>start\<close> up to
  \<open>stop\<close>, cut at the end of the array, and the distance from the least to the
  greatest sample; the reduction of an empty array raises ValueError. The difference is
  taken over the reals: numpy rounds it to the nearest float, which is zero exactly when
  the difference is, so the tests \<open>ptp() != 0\<close> are those of the code.
\<close>

definition array_slice :: "real list \<Rightarrow> slice \<Rightarrow> real list" where
  "array_slice xs sl = take (stop sl - start sl) (drop (start sl) xs)"

fun ptp :: "real list \<Rightarrow> error + real" where
  "ptp [] = Inl ValueError"
| "ptp (x # xs) = Inr (fold max xs x - fold min xs x)"

subsection \<open>FlightType.derive\<close>

text \<open>
  \<open>can_operate\<close> asks for Fast, Liftoff and Touchdown, so these three nodes are bound; the
  others may be \<open>None\<close>. The entries of Touch And Go are read through their
  \<open>index\<close>, as those of Liftoff and Touchdown are: an entry is the instant of a
  touch-and-go (Approaches declares the same node with \<open>KTI\<close>). An attribute object
  is true when it is bound. The list of the record types is written as the source writes
  it: between \<open>'POSITIONING'\<close> and \<open>'TEST'\<close> there is no comma, and Python joins
  adjacent string literals.
\<close>

definition afr_types :: "string list" where
  "afr_types = [''FERRY'', ''LINE_TRAINING'', ''POSITIONING'' @ ''TEST'', ''TRAINING'']"

definition record_type_or_complete :: "string option \<Rightarrow> string" where
  "record_type_or_complete afr_type =
     (case afr_type of
        None \<Rightarrow> ''COMPLETE''
      | Some t \<Rightarrow> if t \<in> set afr_types then t else ''COMPLETE'')"

definition FlightType_derive ::
  "string attribute option \<Rightarrow> section_entry list \<Rightarrow> key_time_instance list \<Rightarrow>
   key_time_instance list \<Rightarrow> key_time_instance list option \<Rightarrow> parameter option \<Rightarrow>
   string run" where
  "FlightType_derive afr_type fast liftoffs touchdowns touch_and_gos groundspeed =
     (let afr_type = (case afr_type of None \<Rightarrow> None | Some a \<Rightarrow> attr_value a);
          no_trailing_touch_and_go =
            ([Set_flight_attr (record_type_or_complete afr_type)], Completed)
      in
      if liftoffs \<noteq> [] \<and> touchdowns = [] then
        ([Logging WARNING, Set_flight_attr ''LIFTOFF_ONLY''], Returned)
      else if liftoffs = [] \<and> touchdowns \<noteq> [] then
        ([Logging WARNING, Set_flight_attr ''TOUCHDOWN_ONLY''], Returned)
      else if liftoffs \<noteq> [] \<and> touchdowns \<noteq> [] then
        (case (get_first kti_index touchdowns, get_first kti_index liftoffs) of
           (Some first_touchdown, Some first_liftoff) \<Rightarrow>
             if kti_index first_touchdown < kti_index first_liftoff then
               ([Logging WARNING, Set_flight_attr ''TOUCHDOWN_BEFORE_LIFTOFF''], Returned)
             else
               (case get_last kti_index touchdowns of
                  None \<Rightarrow> ([], Raised AttributeError)
                | Some last_touchdown \<Rightarrow>
                    if truthy touch_and_gos then
                      (case get_last kti_index (entries touch_and_gos) of
                         None \<Rightarrow> ([], Raised AttributeError)
                       | Some last_touch_and_go \<Rightarrow>
                           if kti_index last_touchdown \<le> kti_index last_touch_and_go then
                             ([Logging WARNING, Set_flight_attr ''LIFTOFF_ONLY''], Returned)
                           else no_trailing_touch_and_go)
                    else no_trailing_touch_and_go)
         | _ \<Rightarrow> ([], Raised AttributeError))
      else if fast \<noteq> [] then ([Set_flight_attr ''REJECTED_TAKEOFF''], Completed)
      else
        (case groundspeed of
           None \<Rightarrow> ([Set_flight_attr ''ENGINE_RUN_UP''], Completed)
         | Some g \<Rightarrow>
             (case ptp (array g) of
                Inl e \<Rightarrow> ([], Raised e)
              | Inr r \<Rightarrow>
                  if r > 10 then ([Set_flight_attr ''GROUND_RUN''], Completed)
                  else ([Set_flight_attr ''ENGINE_RUN_UP''], Completed))))"

subsection \<open>TakeoffPilot.derive and LandingPilot.derive\<close>

datatype pilot = Captain | First_Officer

text \<open>
  The body of \<open>_controls_in_use(takeoff_slice, pitch, roll)\<close>. Python's \<open>or\<close> does
  not evaluate its right operand when the left one is true.
\<close>

definition controls_in_use :: "slice \<Rightarrow> parameter \<Rightarrow> parameter \<Rightarrow> error + bool" where
  "controls_in_use takeoff_slice pitch roll =
     (case ptp (array_slice (array pitch) takeoff_slice) of
        Inl e \<Rightarrow> Inl e
      | Inr pitch_ptp \<Rightarrow>
          if pitch_ptp \<noteq> 0 then Inr True
          else
            (case ptp (array_slice (array roll) takeoff_slice) of
               Inl e \<Rightarrow> Inl e
             | Inr roll_ptp \<Rightarrow> Inr (roll_ptp \<noteq> 0)))"

text \<open>
  A call through the instance, \<open>self.f(a, b, c)\<close>, passes the instance as the first
  argument: a function written with \<open>n_parameters\<close> parameters receives one argument
  more than the call site writes, and Python raises TypeError before the body runs when
  the two counts differ. Both classes write \<open>_controls_in_use\<close> in the class body
  with the three parameters \<open>takeoff_slice, pitch, roll\<close> (no \<open>self\<close>, no
  \<open>staticmethod\<close>) and call it as \<open>self._controls_in_use(slice, pitch, roll)\<close>.
\<close>

definition call_through_instance :: "nat \<Rightarrow> nat \<Rightarrow> error + 'a \<Rightarrow> error + 'a" where
  "call_through_instance n_parameters n_written body =
     (if n_parameters = Suc n_written then body else Inl TypeError)"

definition self_controls_in_use :: "slice \<Rightarrow> parameter \<Rightarrow> parameter \<Rightarrow> error + bool" where
  "self_controls_in_use takeoff_slice pitch roll =
     call_through_instance 3 3 (controls_in_use takeoff_slice pitch roll)"

text \<open>Two blocks of statements one after the other: the second runs when the first ran to its end.\<close>

definition then_block :: "'v run \<Rightarrow> 'v run \<Rightarrow> 'v run" where
  "then_block r1 r2 =
     (case snd r1 of
        Completed \<Rightarrow> (fst r1 @ fst r2, snd r2)
      | _ \<Rightarrow> r1)"

text \<open>
  The first block of \<open>TakeoffPilot.derive\<close> (the control inputs during the first
  takeoff). \<open>in_use\<close> stands for the call \<open>self._controls_in_use(slice, pitch,
  roll)\<close>, which Python resolves on the instance when the call is made;
  \<open>TakeoffPilot_derive\<close> below binds it as the class writes it.
\<close>

definition TakeoffPilot_controls ::
  "(slice \<Rightarrow> parameter \<Rightarrow> parameter \<Rightarrow> error + bool) \<Rightarrow>
   parameter option \<Rightarrow> parameter option \<Rightarrow> parameter option \<Rightarrow> parameter option \<Rightarrow>
   section_entry list option \<Rightarrow> pilot option run" where
  "TakeoffPilot_controls in_use pitch_captain roll_captain pitch_fo roll_fo takeoffs =
     (case (pitch_captain, roll_captain, pitch_fo, roll_fo) of
        (Some pitch_capt, Some roll_capt, Some pitch_f, Some roll_f) \<Rightarrow>
          if truthy takeoffs then
            (case get_first (\<lambda>s. start (section_slice s)) (entries takeoffs) of
               None \<Rightarrow> ([Logging WARNING, Set_flight_attr None], Returned)
             | Some takeoff \<Rightarrow>
                 (case in_use (section_slice takeoff) pitch_capt roll_capt of
                    Inl e \<Rightarrow> ([], Raised e)
                  | Inr captain_flying \<Rightarrow>
                      (case in_use (section_slice takeoff) pitch_f roll_f of
                         Inl e \<Rightarrow> ([], Raised e)
                       | Inr fo_flying \<Rightarrow>
                           if captain_flying \<and> fo_flying then
                             ([Logging WARNING, Set_flight_attr None], Completed)
                           else if captain_flying then
                             ([Set_flight_attr (Some Captain)], Returned)
                           else if fo_flying then
                             ([Set_flight_attr (Some First_Officer)], Returned)
                           else
                             ([Set_flight_attr None, Logging WARNING], Completed))))
          else ([], Completed)
      | _ \<Rightarrow> ([], Completed))"

text \<open>
  The second block (the autopilot channels at liftoff). Both \<open>first_autopilot1\<close>
  and \<open>first_autopilot2\<close> are read from \<open>liftoff_autopilot1\<close>, as in the source.
\<close>

definition TakeoffPilot_autopilot ::
  "key_point_value list option \<Rightarrow> key_point_value list option \<Rightarrow> pilot option run" where
  "TakeoffPilot_autopilot liftoff_autopilot1 liftoff_autopilot2 =
     (if truthy liftoff_autopilot1 \<and> truthy liftoff_autopilot2 then
        (case (get_first kpv_index (entries liftoff_autopilot1),
               get_first kpv_index (entries liftoff_autopilot1)) of
           (Some first_autopilot1, Some first_autopilot2) \<Rightarrow>
             if nonzero (kpv_value first_autopilot1) \<and> \<not> nonzero (kpv_value first_autopilot2)
             then ([Set_flight_attr (Some Captain)], Returned)
             else if \<not> nonzero (kpv_value first_autopilot1) \<and> nonzero (kpv_value first_autopilot2)
             then ([Set_flight_attr (Some First_Officer)], Returned)
             else ([], Completed)
         | _ \<Rightarrow> ([Set_flight_attr None], Completed))
      else ([], Completed))"

definition TakeoffPilot_derive_with ::
  "(slice \<Rightarrow> parameter \<Rightarrow> parameter \<Rightarrow> error + bool) \<Rightarrow>
   key_point_value list option \<Rightarrow> key_point_value list option \<Rightarrow>
   parameter option \<Rightarrow> parameter option \<Rightarrow> parameter option \<Rightarrow> parameter option \<Rightarrow>
   section_entry list option \<Rightarrow> pilot option run" where
  "TakeoffPilot_derive_with in_use liftoff_autopilot1 liftoff_autopilot2
       pitch_captain roll_captain pitch_fo roll_fo takeoffs =
     then_block
       (TakeoffPilot_controls in_use pitch_captain roll_captain pitch_fo roll_fo takeoffs)
       (TakeoffPilot_autopilot liftoff_autopilot1 liftoff_autopilot2)"

definition TakeoffPilot_derive ::
  "key_point_value list option \<Rightarrow> key_point_value list option \<Rightarrow>
   parameter option \<Rightarrow> parameter option \<Rightarrow> parameter option \<Rightarrow> parameter option \<Rightarrow>
   section_entry list option \<Rightarrow> pilot option run" where
  "TakeoffPilot_derive = TakeoffPilot_derive_with self_controls_in_use"

text \<open>\<open>LandingPilot.derive\<close>: the first landing, and the last autopilot flags at touchdown.\<close>

definition LandingPilot_controls ::
  "(slice \<Rightarrow> parameter \<Rightarrow> parameter \<Rightarrow> error + bool) \<Rightarrow>
   parameter option \<Rightarrow> parameter option \<Rightarrow> parameter option \<Rightarrow> parameter option \<Rightarrow>
   section_entry list option \<Rightarrow> pilot option run" where
  "LandingPilot_controls in_use pitch_captain roll_captain pitch_fo roll_fo landings =
     (case (pitch_captain, roll_captain, pitch_fo, roll_fo) of
        (Some pitch_capt, Some roll_capt, Some pitch_f, Some roll_f) \<Rightarrow>
          if truthy landings then
            (case get_first (\<lambda>s. start (section_slice s)) (entries landings) of
               None \<Rightarrow> ([Logging WARNING, Set_flight_attr None], Returned)
             | Some landing \<Rightarrow>
                 (case in_use (section_slice landing) pitch_capt roll_capt of
                    Inl e \<Rightarrow> ([], Raised e)
                  | Inr captain_flying \<Rightarrow>
                      (case in_use (section_slice landing) pitch_f roll_f of
                         Inl e \<Rightarrow> ([], Raised e)
                       | Inr fo_flying \<Rightarrow>
                           if captain_flying \<and> fo_flying then
                             ([Logging WARNING, Set_flight_attr None], Completed)
                           else if captain_flying then
                             ([Set_flight_attr (Some Captain)], Returned)
                           else if fo_flying then
                             ([Set_flight_attr (Some First_Officer)], Returned)
                           else
                             ([Set_flight_attr None, Logging WARNING], Completed))))
          else ([], Completed)
      | _ \<Rightarrow> ([], Completed))"

definition LandingPilot_autopilot ::
  "key_point_value list option \<Rightarrow> key_point_value list option \<Rightarrow> pilot option run" where
  "LandingPilot_autopilot touchdown_autopilot1 touchdown_autopilot2 =
     (if truthy touchdown_autopilot1 \<and> truthy touchdown_autopilot2 then
        (case (get_last kpv_index (entries touchdown_autopilot1),
               get_last kpv_index (entries touchdown_autopilot1)) of
           (Some last_autopilot1, Some last_autopilot2) \<Rightarrow>
             if nonzero (kpv_value last_autopilot1) \<and> \<not> nonzero (kpv_value last_autopilot2)
             then ([Set_flight_attr (Some Captain)], Returned)
             else if \<not> nonzero (kpv_value last_autopilot1) \<and> nonzero (kpv_value last_autopilot2)
             then ([Set_flight_attr (Some First_Officer)], Returned)
             else ([], Completed)
         | _ \<Rightarrow> ([Set_flight_attr None], Completed))
      else ([], Completed))"

definition LandingPilot_derive_with ::
  "(slice \<Rightarrow> parameter \<Rightarrow> parameter \<Rightarrow> error + bool) \<Rightarrow>
   parameter option \<Rightarrow> parameter option \<Rightarrow> parameter option \<Rightarrow> parameter option \<Rightarrow>
   section_entry list option \<Rightarrow>
   key_point_value list option \<Rightarrow> key_point_value list option \<Rightarrow> pilot option run" where
  "LandingPilot_derive_with in_use pitch_captain roll_captain pitch_fo roll_fo landings
       touchdown_autopilot1 touchdown_autopilot2 =
     then_block
       (LandingPilot_controls in_use pitch_captain roll_captain pitch_fo roll_fo landings)
       (LandingPilot_autopilot touchdown_autopilot1 touchdown_autopilot2)"

definition LandingPilot_derive ::
  "parameter option \<Rightarrow> parameter option \<Rightarrow> parameter option \<Rightarrow> parameter option \<Rightarrow>
   section_entry list option \<Rightarrow>
   key_point_value list option \<Rightarrow> key_point_value list option \<Rightarrow> pilot option run" where
  "LandingPilot_derive = LandingPilot_derive_with self_controls_in_use"

subsection \<open>Duration.derive\<close>

text \<open>
  A Python float is an IEEE double. \<open>to_double\<close> is the double nearest to a real
  number, ties going to the even significand: the significand has 53 bits, so in the
  binade \<open>[2^e, 2^(e+1))\<close> the doubles are the multiples of \<open>2^(e - 52)\<close>. This is
  the rounding in the normal range of the doubles, which holds every quotient of a
  non-zero count of microseconds by \<open>10^6\<close>.
\<close>

definition round_half_even :: "real \<Rightarrow> int" where
  "round_half_even y =
     (if y - of_int \<lfloor>y\<rfloor> < 1 / 2 then \<lfloor>y\<rfloor>
      else if 1 / 2 < y - of_int \<lfloor>y\<rfloor> then \<lfloor>y\<rfloor> + 1
      else if even \<lfloor>y\<rfloor> then \<lfloor>y\<rfloor>
      else \<lfloor>y\<rfloor> + 1)"

definition to_double :: "real \<Rightarrow> real" where
  "to_double x =
     (if x = 0 then 0
      else of_int (round_half_even (x / 2 powr (of_int \<lfloor>log 2 \<bar>x\<bar>\<rfloor> - 52)))
             * 2 powr (of_int \<lfloor>log 2 \<bar>x\<bar>\<rfloor> - 52))"

text \<open>
  A datetime is a count of microseconds (the resolution of Python's \<open>datetime\<close>); the
  difference of two datetimes is a \<open>timedelta\<close>, again a count of microseconds, and
  \<open>total_seconds\<close> is the true division of that count by \<open>10^6\<close>: the float
  nearest to the quotient. A datetime object is always true, so
  \<open>landing_dt.value and takeoff_dt.value\<close> fails exactly when one of them is
  \<open>None\<close>. Both attributes are declared dependencies and are bound.
\<close>

definition total_seconds :: "int \<Rightarrow> real" where
  "total_seconds microseconds = to_double (real_of_int microseconds / 1000000)"

definition Duration_derive :: "int attribute \<Rightarrow> int attribute \<Rightarrow> real option run" where
  "Duration_derive takeoff_dt landing_dt =
     (case (attr_value landing_dt, attr_value takeoff_dt) of
        (Some landing, Some takeoff) \<Rightarrow>
          ([Set_flight_attr (Some (total_seconds (landing - takeoff)))], Completed)
      | _ \<Rightarrow> ([Set_flight_attr None], Returned))"

text \<open>
  The attribute of a node after a run: \<open>set_flight_attr\<close> overwrites it. Before the
  first call the node has no attribute (\<open>None\<close> here; \<open>Some v\<close> is an attribute set to
  \<open>v\<close>, where \<open>v\<close> may itself be Python's \<open>None\<close>).
\<close>

fun attribute_after :: "'v event list \<Rightarrow> 'v option \<Rightarrow> 'v option" where
  "attribute_after [] a = a"
| "attribute_after (Set_flight_attr v # es) a = attribute_after es (Some v)"
| "attribute_after (Logging l # es) a = attribute_after es a"

subsection \<open>The airport and runway lookups\<close>

text \<open>
  Modelled from the spec: the lookup service (analysis/api\_handler.py) is not among
  the sources. Section 6 gives its contract: \<open>nearest_airport(latitude, longitude)\<close> is
  an airport record or fails, and \<open>nearest_runway(airport_id, heading, ilsfreq?,
  latitude?, longitude?)\<close> is a runway record or fails. The service is a parameter of
  every rule that calls it; a failure is the exception raised (\<open>NotFoundError\<close> when
  nothing is found). The keyword arguments: \<open>ilsfreq\<close> may be left out, or passed as a
  value or as \<open>None\<close>; latitude and longitude are passed together or not at all.
\<close>

record airport =
  airport_id :: nat
  airport_name :: string

record runway =
  runway_id :: nat
  runway_identifier :: string

record kwargs =
  kw_ilsfreq :: "real option option"
  kw_position :: "(real \<times> real) option"

record api_handler =
  get_nearest_airport :: "real \<Rightarrow> real \<Rightarrow> error + airport"
  get_nearest_runway :: "nat \<Rightarrow> real \<Rightarrow> kwargs \<Rightarrow> error + runway"

text \<open>\<open>precision and precision.value\<close>: the attribute is bound and its value is true.\<close>

fun precise :: "bool attribute option \<Rightarrow> bool" where
  "precise None = False"
| "precise (Some a) = (attr_value a = Some True)"

text \<open>\<open>array[i]\<close> of numpy with a natural index: IndexError past the end.\<close>

definition array_at :: "real list \<Rightarrow> nat \<Rightarrow> error + real" where
  "array_at xs i = (if i < length xs then Inr (xs ! i) else Inl IndexError)"

subsection \<open>LandingAirport.derive and TakeoffAirport.derive\<close>

definition LandingAirport_derive ::
  "api_handler \<Rightarrow> key_point_value list \<Rightarrow> key_point_value list \<Rightarrow> airport option run" where
  "LandingAirport_derive api landing_latitude landing_longitude =
     (case (get_last kpv_index landing_latitude, get_last kpv_index landing_longitude) of
        (Some last_latitude, Some last_longitude) \<Rightarrow>
          (case get_nearest_airport api (kpv_value last_latitude) (kpv_value last_longitude) of
             Inl NotFoundError \<Rightarrow> ([Logging WARNING, Set_flight_attr None], Completed)
           | Inl e \<Rightarrow> ([], Raised e)
           | Inr airport \<Rightarrow> ([Set_flight_attr (Some airport)], Completed))
      | _ \<Rightarrow> ([Logging WARNING, Set_flight_attr None], Returned))"

definition TakeoffAirport_derive ::
  "api_handler \<Rightarrow> key_time_instance list \<Rightarrow> parameter \<Rightarrow> parameter \<Rightarrow> airport option run" where
  "TakeoffAirport_derive api liftoff latitude longitude =
     (case liftoff of
        [] \<Rightarrow> ([Logging WARNING, Set_flight_attr None], Returned)
      | liftoff0 # _ \<Rightarrow>
          (case array_at (array latitude) (kti_index liftoff0) of
             Inl e \<Rightarrow> ([], Raised e)
           | Inr latitude_at_liftoff \<Rightarrow>
               (case array_at (array longitude) (kti_index liftoff0) of
                  Inl e \<Rightarrow> ([], Raised e)
                | Inr longitude_at_liftoff \<Rightarrow>
                    (case get_nearest_airport api latitude_at_liftoff longitude_at_liftoff of
                       Inl NotFoundError \<Rightarrow> ([Logging WARNING], Completed)
                     | Inl e \<Rightarrow> ([], Raised e)
                     | Inr airport \<Rightarrow> ([Set_flight_attr (Some airport)], Completed)))))"

subsection \<open>TakeoffRunway.derive and LandingRunway.derive\<close>

text \<open>
  The airport attribute is bound (\<open>can_operate\<close> asks for it) and its value may be
  \<open>None\<close>: subscripting \<open>None\<close> raises TypeError. \<open>hdg[0]\<close> raises IndexError on
  an empty node.
\<close>

definition TakeoffRunway_kwargs ::
  "key_time_instance list option \<Rightarrow> parameter option \<Rightarrow> parameter option \<Rightarrow>
   bool attribute option \<Rightarrow> error + kwargs" where
  "TakeoffRunway_kwargs liftoff latitude longitude precision =
     (case (precise precision, entries liftoff, latitude, longitude) of
        (True, liftoff0 # _, Some lat, Some lon) \<Rightarrow>
          (case array_at (array lat) (kti_index liftoff0) of
             Inl e \<Rightarrow> Inl e
           | Inr latitude_at_liftoff \<Rightarrow>
               (case array_at (array lon) (kti_index liftoff0) of
                  Inl e \<Rightarrow> Inl e
                | Inr longitude_at_liftoff \<Rightarrow>
                    Inr \<lparr>kw_ilsfreq = None,
                         kw_position = Some (latitude_at_liftoff, longitude_at_liftoff)\<rparr>))
      | _ \<Rightarrow> Inr \<lparr>kw_ilsfreq = None, kw_position = None\<rparr>)"

definition TakeoffRunway_derive ::
  "api_handler \<Rightarrow> airport attribute \<Rightarrow> key_point_value list \<Rightarrow>
   key_time_instance list option \<Rightarrow> parameter option \<Rightarrow> parameter option \<Rightarrow>
   bool attribute option \<Rightarrow> runway run" where
  "TakeoffRunway_derive api airport hdg liftoff latitude longitude precision =
     (case TakeoffRunway_kwargs liftoff latitude longitude precision of
        Inl e \<Rightarrow> ([], Raised e)
      | Inr kwargs \<Rightarrow>
          (case attr_value airport of
             None \<Rightarrow> ([], Raised TypeError)
           | Some airport_value \<Rightarrow>
               (case hdg of
                  [] \<Rightarrow> ([], Raised IndexError)
                | hdg0 # _ \<Rightarrow>
                    (case get_nearest_runway api (airport_id airport_value) (kpv_value hdg0)
                            kwargs of
                       Inl NotFoundError \<Rightarrow> ([Logging WARNING], Completed)
                     | Inl e \<Rightarrow> ([], Raised e)
                     | Inr runway \<Rightarrow> ([Set_flight_attr runway], Completed)))))"

definition LandingRunway_kwargs ::
  "slice \<Rightarrow> key_point_value list option \<Rightarrow> key_point_value list option \<Rightarrow>
   key_point_value list option \<Rightarrow> bool attribute option \<Rightarrow> kwargs" where
  "LandingRunway_kwargs landing_slice landing_latitude landing_longitude approach_ilsfreq
       precision =
     \<lparr>kw_ilsfreq =
        (if truthy approach_ilsfreq
         then Some (map_option kpv_value
                (get_last kpv_index
                   (get_within kpv_index landing_slice (entries approach_ilsfreq))))
         else None),
      kw_position =
        (if precise precision \<and> truthy landing_latitude \<and> truthy landing_longitude
         then
           (case (get_last kpv_index
                    (get_within kpv_index landing_slice (entries landing_latitude)),
                  get_last kpv_index
                    (get_within kpv_index landing_slice (entries landing_longitude))) of
              (Some last_latitude, Some last_longitude) \<Rightarrow>
                Some (kpv_value last_latitude, kpv_value last_longitude)
            | _ \<Rightarrow> None)
         else None)\<rparr>"

definition LandingRunway_derive ::
  "api_handler \<Rightarrow> section_entry list \<Rightarrow> key_point_value list \<Rightarrow> airport attribute \<Rightarrow>
   key_point_value list option \<Rightarrow> key_point_value list option \<Rightarrow>
   key_point_value list option \<Rightarrow> bool attribute option \<Rightarrow> runway run" where
  "LandingRunway_derive api approach_and_landing landing_hdg airport landing_latitude
       landing_longitude approach_ilsfreq precision =
     (case attr_value airport of
        None \<Rightarrow> ([], Raised TypeError)
      | Some airport_value \<Rightarrow>
          (case get_last (\<lambda>s. stop (section_slice s)) approach_and_landing of
             None \<Rightarrow> ([], Returned)
           | Some landing \<Rightarrow>
               (case get_last kpv_index
                       (get_within kpv_index (section_slice landing) landing_hdg) of
                  None \<Rightarrow> ([Logging WARNING], Returned)
                | Some heading_kpv \<Rightarrow>
                    (case get_nearest_runway api (airport_id airport_value)
                            (kpv_value heading_kpv)
                            (LandingRunway_kwargs (section_slice landing) landing_latitude
                               landing_longitude approach_ilsfreq precision) of
                       Inl NotFoundError \<Rightarrow> ([Logging WARNING], Completed)
                     | Inl e \<Rightarrow> ([], Raised e)
                     | Inr runway \<Rightarrow> ([Set_flight_attr runway], Completed)))))"

subsection \<open>Approaches.derive\<close>

datatype approach_type = LANDING | TOUCH_AND_GO | GO_AROUND

text \<open>An entry of the list the rule sets: the dictionary with the keys airport, runway, type, datetime.\<close>

record approach =
  approach_airport :: nat
  approach_runway :: "string option"
  approach_kind :: approach_type
  approach_datetime :: int

text \<open>
  The dependencies of the rule. \<open>arg_frequency\<close> is
  \<open>approach_and_landing.frequency\<close> and \<open>arg_start_datetime\<close> is
  \<open>start_datetime.value\<close>.
\<close>

record approaches_args =
  arg_start_datetime :: int
  arg_approach_and_landing :: "section_entry list"
  arg_frequency :: real
  arg_landing_hdg_kpvs :: "key_point_value list option"
  arg_touch_and_gos :: "key_time_instance list option"
  arg_go_arounds :: "key_time_instance list option"
  arg_landing_lat_kpvs :: "key_point_value list option"
  arg_landing_lon_kpvs :: "key_point_value list option"
  arg_approach_lat_kpvs :: "key_point_value list option"
  arg_approach_lon_kpvs :: "key_point_value list option"
  arg_approach_hdg_kpvs :: "key_point_value list option"
  arg_approach_ilsfreq_kpvs :: "key_point_value list option"
  arg_precision :: "bool attribute option"

text \<open>\<open>_get_approach_type\<close>.\<close>

definition get_approach_type ::
  "slice \<Rightarrow> key_point_value list option \<Rightarrow> key_time_instance list option \<Rightarrow>
   key_time_instance list option \<Rightarrow> approach_type option" where
  "get_approach_type approach_slice landing_hdg_kpvs touch_and_gos go_arounds =
     (if truthy landing_hdg_kpvs
         \<and> length (get_within kpv_index approach_slice (entries landing_hdg_kpvs)) = 1
      then Some LANDING
      else if truthy touch_and_gos
         \<and> length (get_within kti_index approach_slice (entries touch_and_gos)) = 1
      then Some TOUCH_AND_GO
      else if truthy go_arounds
         \<and> length (get_within kti_index approach_slice (entries go_arounds)) = 1
      then Some GO_AROUND
      else None)"

text \<open>\<open>_get_lat_lon\<close>: the pair of values, or the pair \<open>(None, None)\<close>.\<close>

definition get_lat_lon ::
  "slice \<Rightarrow> key_point_value list option \<Rightarrow> key_point_value list option \<Rightarrow>
   key_point_value list option \<Rightarrow> key_point_value list option \<Rightarrow>
   real option \<times> real option" where
  "get_lat_lon approach_slice landing_lat_kpvs landing_lon_kpvs approach_lat_kpvs
       approach_lon_kpvs =
     (case (if truthy landing_lat_kpvs \<and> truthy landing_lon_kpvs
            then (get_within kpv_index approach_slice (entries landing_lat_kpvs),
                  get_within kpv_index approach_slice (entries landing_lon_kpvs))
            else ([], [])) of
        ([lat_kpv], [lon_kpv]) \<Rightarrow> (Some (kpv_value lat_kpv), Some (kpv_value lon_kpv))
      | _ \<Rightarrow>
          (case (if truthy approach_lat_kpvs \<and> truthy approach_lon_kpvs
                 then (get_within kpv_index approach_slice (entries approach_lat_kpvs),
                       get_within kpv_index approach_slice (entries approach_lon_kpvs))
                 else ([], [])) of
             ([lat_kpv], [lon_kpv]) \<Rightarrow> (Some (kpv_value lat_kpv), Some (kpv_value lon_kpv))
           | _ \<Rightarrow> (None, None)))"

text \<open>\<open>_get_hdg\<close>.\<close>

definition get_hdg ::
  "slice \<Rightarrow> key_point_value list option \<Rightarrow> key_point_value list option \<Rightarrow> real option" where
  "get_hdg approach_slice landing_hdg_kpvs approach_hdg_kpvs =
     (case (if truthy landing_hdg_kpvs
            then get_within kpv_index approach_slice (entries landing_hdg_kpvs)
            else []) of
        [hdg_kpv] \<Rightarrow> Some (kpv_value hdg_kpv)
      | _ \<Rightarrow>
          (case (if truthy approach_hdg_kpvs
                 then get_within kpv_index approach_slice (entries approach_hdg_kpvs)
                 else []) of
             [hdg_kpv] \<Rightarrow> Some (kpv_value hdg_kpv)
           | _ \<Rightarrow> None))"

text \<open>
  The keyword arguments of the runway query of one approach: the ILS frequency when
  exactly one is within the slice, the position when positioning is precise.
\<close>

definition approach_kwargs :: "approaches_args \<Rightarrow> slice \<Rightarrow> real \<Rightarrow> real \<Rightarrow> kwargs" where
  "approach_kwargs args approach_slice lat lon =
     \<lparr>kw_ilsfreq =
        (case (if truthy (arg_approach_ilsfreq_kpvs args)
               then get_within kpv_index approach_slice
                      (entries (arg_approach_ilsfreq_kpvs args))
               else []) of
           [ilsfreq_kpv] \<Rightarrow> Some (Some (kpv_value ilsfreq_kpv))
         | _ \<Rightarrow> None),
      kw_position = (if precise (arg_precision args) then Some (lat, lon) else None)\<rparr>"

text \<open>
  The body of the loop for one approach: the log records it writes, the entry it
  appends (if any), and how it was left. \<open>Completed\<close> covers \<open>continue\<close>: the loop
  goes on with the next approach. Modelled from the spec: \<open>datetime_of_index\<close>
  (analysis/library.py) is not among the sources; section 6 gives it as a function from
  the start datetime, a sample index and a sample rate to a timestamp, and it is a
  parameter here. \<open>not lat\<close> is true of \<open>None\<close> and of zero, as \<open>not hdg\<close> is.
\<close>

definition Approaches_approach ::
  "api_handler \<Rightarrow> (int \<Rightarrow> nat \<Rightarrow> real \<Rightarrow> int) \<Rightarrow> approaches_args \<Rightarrow> section_entry \<Rightarrow>
   level list \<times> approach option \<times> flow" where
  "Approaches_approach api datetime_of_index args approach =
     (let approach_slice = section_slice approach;
          approach_dt = datetime_of_index (arg_start_datetime args) (stop approach_slice)
                          (arg_frequency args)
      in case get_approach_type approach_slice (arg_landing_hdg_kpvs args)
                (arg_touch_and_gos args) (arg_go_arounds args) of
           None \<Rightarrow> ([WARNING], None, Completed)
         | Some approach_type \<Rightarrow>
             (case get_lat_lon approach_slice (arg_landing_lat_kpvs args)
                     (arg_landing_lon_kpvs args) (arg_approach_lat_kpvs args)
                     (arg_approach_lon_kpvs args) of
                (Some lat, Some lon) \<Rightarrow>
                  if \<not> nonzero lat \<or> \<not> nonzero lon then ([WARNING], None, Completed)
                  else
                    (case get_nearest_airport api lat lon of
                       Inl NotFoundError \<Rightarrow> ([WARNING], None, Completed)
                     | Inl e \<Rightarrow> ([], None, Raised e)
                     | Inr airport \<Rightarrow>
                         (case get_hdg approach_slice (arg_landing_hdg_kpvs args)
                                 (arg_approach_hdg_kpvs args) of
                            None \<Rightarrow>
                              ([INFO],
                               Some \<lparr>approach_airport = airport_id airport,
                                     approach_runway = None,
                                     approach_kind = approach_type,
                                     approach_datetime = approach_dt\<rparr>,
                               Completed)
                          | Some hdg \<Rightarrow>
                              if \<not> nonzero hdg then
                                ([INFO],
                                 Some \<lparr>approach_airport = airport_id airport,
                                       approach_runway = None,
                                       approach_kind = approach_type,
                                       approach_datetime = approach_dt\<rparr>,
                                 Completed)
                              else
                                (case get_nearest_runway api (airport_id airport) hdg
                                        (approach_kwargs args approach_slice lat lon) of
                                   Inl NotFoundError \<Rightarrow>
                                     ([WARNING],
                                      Some \<lparr>approach_airport = airport_id airport,
                                            approach_runway = None,
                                            approach_kind = approach_type,
                                            approach_datetime = approach_dt\<rparr>,
                                      Completed)
                                 | Inl e \<Rightarrow> ([], None, Raised e)
                                 | Inr runway \<Rightarrow>
                                     ([],
                                      Some \<lparr>approach_airport = airport_id airport,
                                            approach_runway = Some (runway_identifier runway),
                                            approach_kind = approach_type,
                                            approach_datetime = approach_dt\<rparr>,
                                      Completed))))
              | _ \<Rightarrow> ([WARNING], None, Completed)))"

text \<open>
  The loop over the approaches, in the order of the node: the log records, the list
  \<open>approaches\<close> built so far, and how the loop was left (an exception ends it).
\<close>

fun Approaches_loop ::
  "api_handler \<Rightarrow> (int \<Rightarrow> nat \<Rightarrow> real \<Rightarrow> int) \<Rightarrow> approaches_args \<Rightarrow> section_entry list \<Rightarrow>
   level list \<times> approach list \<times> flow" where
  "Approaches_loop api datetime_of_index args [] = ([], [], Completed)"
| "Approaches_loop api datetime_of_index args (approach # rest) =
     (case Approaches_approach api datetime_of_index args approach of
        (logs, entry, Completed) \<Rightarrow>
          (case Approaches_loop api datetime_of_index args rest of
             (logs', approaches, left) \<Rightarrow>
               (logs @ logs', (case entry of None \<Rightarrow> [] | Some a \<Rightarrow> [a]) @ approaches, left))
      | (logs, entry, left) \<Rightarrow> (logs, [], left))"

text \<open>The rule: after the loop, the list is set.\<close>

definition Approaches_derive_on ::
  "api_handler \<Rightarrow> (int \<Rightarrow> nat \<Rightarrow> real \<Rightarrow> int) \<Rightarrow> approaches_args \<Rightarrow> section_entry list \<Rightarrow>
   approach list run" where
  "Approaches_derive_on api datetime_of_index args approach_and_landing =
     (case Approaches_loop api datetime_of_index args approach_and_landing of
        (logs, approaches, Completed) \<Rightarrow>
          (map Logging logs @ [Set_flight_attr approaches], Completed)
      | (logs, approaches, left) \<Rightarrow> (map Logging logs, left))"

definition Approaches_derive ::
  "api_handler \<Rightarrow> (int \<Rightarrow> nat \<Rightarrow> real \<Rightarrow> int) \<Rightarrow> approaches_args \<Rightarrow> approach list run" where
  "Approaches_derive api datetime_of_index args =
     Approaches_derive_on api datetime_of_index args (arg_approach_and_landing args)"

subsection \<open>The remaining rules\<close>

text \<open>
  The rules that select one value. \<open>datetime.now()\<close> and the version of the package are
  parameters. An entry of the Turning node carries a name, and \<open>get_first(name=...)\<close>
  and \<open>get_last(name=...)\<close> look among the entries of that name. An attribute object is
  true when it is bound.
\<close>

record named_section = section_entry +
  section_name :: string

definition AnalysisDatetime_derive :: "int \<Rightarrow> int attribute \<Rightarrow> int run" where
  "AnalysisDatetime_derive now start_datetime = ([Set_flight_attr now], Completed)"

definition FlightID_derive :: "'a attribute \<Rightarrow> 'a option run" where
  "FlightID_derive flight_id = ([Set_flight_attr (attr_value flight_id)], Completed)"

definition FlightNumber_derive :: "parameter \<Rightarrow> real run" where
  "FlightNumber_derive num =
     (case array_at (array num) (length (array num) div 2) of
        Inl e \<Rightarrow> ([], Raised e)
      | Inr n \<Rightarrow> ([Set_flight_attr n], Completed))"

definition OffBlocksDatetime_derive ::
  "(int \<Rightarrow> nat \<Rightarrow> real \<Rightarrow> int) \<Rightarrow> named_section list \<Rightarrow> real \<Rightarrow> int \<Rightarrow> int option run" where
  "OffBlocksDatetime_derive datetime_of_index turning hz start_datetime =
     (case get_first (\<lambda>s. start (section_slice s))
             (filter (\<lambda>s. section_name s = ''Turning On Ground'') turning) of
        Some first_turning \<Rightarrow>
          ([Set_flight_attr
              (Some (datetime_of_index start_datetime (start (section_slice first_turning))
                       hz))],
           Completed)
      | None \<Rightarrow> ([Set_flight_attr None], Completed))"

definition OnBlocksDatetime_derive ::
  "(int \<Rightarrow> nat \<Rightarrow> real \<Rightarrow> int) \<Rightarrow> named_section list \<Rightarrow> real \<Rightarrow> int \<Rightarrow> int option run" where
  "OnBlocksDatetime_derive datetime_of_index turning hz start_datetime =
     (case get_last (\<lambda>s. stop (section_slice s))
             (filter (\<lambda>s. section_name s = ''Turning On Ground'') turning) of
        Some last_turning \<Rightarrow>
          ([Set_flight_attr
              (Some (datetime_of_index start_datetime (start (section_slice last_turning))
                       hz))],
           Completed)
      | None \<Rightarrow> ([Set_flight_attr None], Completed))"

definition TakeoffDatetime_derive ::
  "(int \<Rightarrow> nat \<Rightarrow> real \<Rightarrow> int) \<Rightarrow> key_time_instance list \<Rightarrow> real \<Rightarrow> int \<Rightarrow> int option run" where
  "TakeoffDatetime_derive datetime_of_index liftoff frequency start_dt =
     (case get_first kti_index liftoff of
        None \<Rightarrow> ([Set_flight_attr None], Returned)
      | Some first_liftoff \<Rightarrow>
          ([Set_flight_attr
              (Some (datetime_of_index start_dt (kti_index first_liftoff) frequency))],
           Completed))"

definition LandingDatetime_derive ::
  "(int \<Rightarrow> nat \<Rightarrow> real \<Rightarrow> int) \<Rightarrow> int \<Rightarrow> key_time_instance list \<Rightarrow> real \<Rightarrow> int option run" where
  "LandingDatetime_derive datetime_of_index start_datetime touchdown frequency =
     (case get_last kti_index touchdown of
        None \<Rightarrow> ([Set_flight_attr None], Returned)
      | Some last_touchdown \<Rightarrow>
          ([Set_flight_attr
              (Some (datetime_of_index start_datetime (kti_index last_touchdown)
                       frequency))],
           Completed))"

text \<open>
  \<open>can_operate\<close> of the two fuel rules asks for one of the two dependencies; the other may be
  unbound, and \<open>get_first\<close> on an unbound node raises AttributeError.
\<close>

definition TakeoffFuel_derive ::
  "real attribute option \<Rightarrow> key_point_value list option \<Rightarrow> real option run" where
  "TakeoffFuel_derive afr_takeoff_fuel liftoff_fuel_qty =
     (case afr_takeoff_fuel of
        Some afr \<Rightarrow> ([Set_flight_attr (attr_value afr)], Completed)
      | None \<Rightarrow>
          (case liftoff_fuel_qty of
             None \<Rightarrow> ([], Raised AttributeError)
           | Some kpvs \<Rightarrow>
               (case get_first kpv_index kpvs of
                  Some fuel_qty_kpv \<Rightarrow>
                    ([Set_flight_attr (Some (kpv_value fuel_qty_kpv))], Completed)
                | None \<Rightarrow> ([], Completed))))"

definition LandingFuel_derive ::
  "real attribute option \<Rightarrow> key_point_value list option \<Rightarrow> real option run" where
  "LandingFuel_derive afr_landing_fuel touchdown_fuel_qty =
     (case afr_landing_fuel of
        Some afr \<Rightarrow> ([Set_flight_attr (attr_value afr)], Completed)
      | None \<Rightarrow>
          (case touchdown_fuel_qty of
             None \<Rightarrow> ([], Raised AttributeError)
           | Some kpvs \<Rightarrow>
               (case get_last kpv_index kpvs of
                  Some fuel_qty_kpv \<Rightarrow>
                    ([Set_flight_attr (Some (kpv_value fuel_qty_kpv))], Completed)
                | None \<Rightarrow> ([], Completed))))"

definition TakeoffGrossWeight_derive :: "key_point_value list \<Rightarrow> real run" where
  "TakeoffGrossWeight_derive liftoff_gross_weight =
     (case get_first kpv_index liftoff_gross_weight of
        None \<Rightarrow> ([], Returned)
      | Some first_gross_weight \<Rightarrow>
          ([Set_flight_attr (kpv_value first_gross_weight)], Completed))"

definition LandingGrossWeight_derive :: "key_point_value list \<Rightarrow> real run" where
  "LandingGrossWeight_derive touchdown_gross_weight =
     (case get_last kpv_index touchdown_gross_weight of
        Some last_gross_weight \<Rightarrow>
          ([Set_flight_attr (kpv_value last_gross_weight)], Completed)
      | None \<Rightarrow> ([], Completed))"

text \<open>\<open>V2\<close>, \<open>Vapp\<close> and \<open>Vref\<close> return without setting anything.\<close>

definition V2_derive :: "key_point_value list \<Rightarrow> key_point_value list \<Rightarrow> real run" where
  "V2_derive weight_touchdown flap_touchdown =
     (case (get_last kpv_index weight_touchdown, get_last kpv_index flap_touchdown) of
        (Some weight, Some flap) \<Rightarrow> ([], Returned)
      | _ \<Rightarrow> ([], Returned))"

definition Vapp_derive :: "key_point_value list \<Rightarrow> key_point_value list \<Rightarrow> real run" where
  "Vapp_derive weight_touchdown flap_touchdown =
     (case (get_last kpv_index weight_touchdown, get_last kpv_index flap_touchdown) of
        (Some weight, Some flap) \<Rightarrow> ([], Returned)
      | _ \<Rightarrow> ([], Returned))"

definition Vref_derive ::
  "string attribute \<Rightarrow> key_point_value list \<Rightarrow> key_point_value list \<Rightarrow> real run" where
  "Vref_derive aircraft_model weight_touchdown flap_touchdown = ([], Returned)"

definition Version_derive :: "string \<Rightarrow> int attribute \<Rightarrow> string run" where
  "Version_derive version start_datetime = ([Set_flight_attr version], Completed)"

subsection \<open>Example data\<close>

text \<open>
  Inputs for the instances below: a lookup service that knows one airport (at latitude
  51, longitude 1) and one runway (heading 270), the identity for
  \<open>datetime_of_index\<close>, the dependencies of Approaches all unbound, and one approach
  over the samples \<open>[0, 10)\<close>.
\<close>

definition example_api :: api_handler where
  "example_api =
     \<lparr>get_nearest_airport =
        (\<lambda>lat lon. if lat = 51 \<and> lon = 1
                    then Inr \<lparr>airport_id = 2383, airport_name = ''London Heathrow''\<rparr>
                    else Inl NotFoundError),
      get_nearest_runway =
        (\<lambda>a hdg kw. if hdg = 270
                     then Inr \<lparr>runway_id = 1234, runway_identifier = ''27L''\<rparr>
                     else Inl NotFoundError)\<rparr>"

definition example_datetime_of_index :: "int \<Rightarrow> nat \<Rightarrow> real \<Rightarrow> int" where
  "example_datetime_of_index start_datetime i frequency = start_datetime"

definition example_args :: approaches_args where
  "example_args =
     \<lparr>arg_start_datetime = 0, arg_approach_and_landing = [], arg_frequency = 1,
      arg_landing_hdg_kpvs = None, arg_touch_and_gos = None, arg_go_arounds = None,
      arg_landing_lat_kpvs = None, arg_landing_lon_kpvs = None,
      arg_approach_lat_kpvs = None, arg_approach_lon_kpvs = None,
      arg_approach_hdg_kpvs = None, arg_approach_ilsfreq_kpvs = None,
      arg_precision = None\<rparr>"

definition example_approach :: section_entry where
  "example_approach = \<lparr>section_slice = \<lparr>start = 0, stop = 10\<rparr>\<rparr>"

section \<open>Properties\<close>

subsection \<open>Queries\<close>

lemma get_first_None: "get_first key xs = None \<longleftrightarrow> xs = []"
  by (cases xs) (auto split: option.splits)

lemma get_last_None: "get_last key xs = None \<longleftrightarrow> xs = []"
  by (cases xs) (auto split: option.splits)

lemma get_first_Some: "xs \<noteq> [] \<Longrightarrow> \<exists>x. get_first key xs = Some x"
  by (cases xs) (auto split: option.splits)

lemma get_last_Some: "xs \<noteq> [] \<Longrightarrow> \<exists>x. get_last key xs = Some x"
  by (cases xs) (auto split: option.splits)

lemma get_last_greatest:
  "get_last key xs = Some y \<Longrightarrow> x \<in> set xs \<Longrightarrow> key x \<le> key y"
proof (induction xs arbitrary: y)
  case Nil
  then show ?case by simp
next
  case (Cons a xs)
  show ?case
  proof (cases "get_last key xs")
    case None
    then have "xs = []" by (simp add: get_last_None)
    with Cons.prems None show ?thesis by simp
  next
    case (Some z)
    have le: "x \<in> set xs \<Longrightarrow> key x \<le> key z" using Cons.IH [OF Some] .
    from Cons.prems Some show ?thesis
      by (auto split: if_splits dest: le)
  qed
qed

subsection \<open>Flight type\<close>

text \<open>
  Claim C2 (the record-type override). With a liftoff at 100 and a touchdown at 500 and
  no touch-and-go, none of the earlier rules matches; the record types
  \<open>POSITIONING\<close> and \<open>TEST\<close> are nevertheless not taken over: the flight type is
  \<open>COMPLETE\<close>. The list of the source holds the one string \<open>POSITIONINGTEST\<close> in
  their place, which is taken over, as \<open>FERRY\<close>, \<open>LINE_TRAINING\<close> and
  \<open>TRAINING\<close> are.
\<close>

theorem FlightType_override_positioning_test:
  "FlightType_derive (Some (Attribute (Some ''POSITIONING''))) []
      [\<lparr>kti_index = 100\<rparr>] [\<lparr>kti_index = 500\<rparr>] None None
     = ([Set_flight_attr ''COMPLETE''], Completed)
   \<and> FlightType_derive (Some (Attribute (Some ''TEST''))) []
      [\<lparr>kti_index = 100\<rparr>] [\<lparr>kti_index = 500\<rparr>] None None
     = ([Set_flight_attr ''COMPLETE''], Completed)
   \<and> FlightType_derive (Some (Attribute (Some ''POSITIONINGTEST''))) []
      [\<lparr>kti_index = 100\<rparr>] [\<lparr>kti_index = 500\<rparr>] None None
     = ([Set_flight_attr ''POSITIONINGTEST''], Completed)
   \<and> FlightType_derive (Some (Attribute (Some ''FERRY''))) []
      [\<lparr>kti_index = 100\<rparr>] [\<lparr>kti_index = 500\<rparr>] None None
     = ([Set_flight_attr ''FERRY''], Completed)"
  by (simp add: FlightType_derive_def record_type_or_complete_def afr_types_def)

text \<open>
  Claim C9 (a trailing touch-and-go). When liftoffs and touchdowns exist, the first
  touchdown is not before the first liftoff, and some touch-and-go is at or after the
  last touchdown, the flight type set is \<open>LIFTOFF_ONLY\<close>, after a warning, and the
  rule returns: nothing else is set.
\<close>

theorem FlightType_trailing_touch_and_go:
  assumes "liftoffs \<noteq> []" and "touchdowns \<noteq> []"
    and "get_first kti_index touchdowns = Some first_touchdown"
    and "get_first kti_index liftoffs = Some first_liftoff"
    and "kti_index first_liftoff \<le> kti_index first_touchdown"
    and "get_last kti_index touchdowns = Some last_touchdown"
    and "touch_and_gos = Some tgs"
    and "tg \<in> set tgs"
    and "kti_index last_touchdown \<le> kti_index tg"
  shows "FlightType_derive afr_type fast liftoffs touchdowns touch_and_gos groundspeed =
           ([Logging WARNING, Set_flight_attr ''LIFTOFF_ONLY''], Returned)"
proof -
  from assms(8) have ne: "tgs \<noteq> []" by auto
  then obtain ltg where ltg: "get_last kti_index tgs = Some ltg"
    using get_last_Some by blast
  have "kti_index tg \<le> kti_index ltg"
    using get_last_greatest [OF ltg assms(8)] .
  with assms(9) have "kti_index last_touchdown \<le> kti_index ltg" by simp
  with assms ne ltg show ?thesis
    by (simp add: FlightType_derive_def)
qed

text \<open>
  The instance of the spec: touchdown indices \<open>{500}\<close> and a touch-and-go at 600
  (with a liftoff at 100) give \<open>LIFTOFF_ONLY\<close>, and \<open>COMPLETE\<close> is not set.
\<close>

theorem FlightType_trailing_touch_and_go_witness:
  "FlightType_derive None [] [\<lparr>kti_index = 100\<rparr>] [\<lparr>kti_index = 500\<rparr>]
      (Some [\<lparr>kti_index = 600\<rparr>]) None
     = ([Logging WARNING, Set_flight_attr ''LIFTOFF_ONLY''], Returned)
   \<and> ''COMPLETE'' \<notin> set (commits (fst (FlightType_derive None [] [\<lparr>kti_index = 100\<rparr>]
      [\<lparr>kti_index = 500\<rparr>] (Some [\<lparr>kti_index = 600\<rparr>]) None)))"
proof -
  have "FlightType_derive None [] [\<lparr>kti_index = 100\<rparr>] [\<lparr>kti_index = 500\<rparr>]
      (Some [\<lparr>kti_index = 600\<rparr>]) None
     = ([Logging WARNING, Set_flight_attr ''LIFTOFF_ONLY''], Returned)"
    by (rule FlightType_trailing_touch_and_go
        [where first_touchdown = "\<lparr>kti_index = 500\<rparr>" and first_liftoff = "\<lparr>kti_index = 100\<rparr>"
           and last_touchdown = "\<lparr>kti_index = 500\<rparr>" and tgs = "[\<lparr>kti_index = 600\<rparr>]"
           and tg = "\<lparr>kti_index = 600\<rparr>"]) simp_all
  then show ?thesis by simp
qed

subsection \<open>Traces\<close>

lemma commits_append: "commits (xs @ ys) = commits xs @ commits ys"
  by (induction xs rule: commits.induct) simp_all

lemma commits_map_Logging: "commits (map Logging ls) = []"
  by (induction ls) simp_all

lemma then_block_nothing: "then_block r ([], Completed) = r"
  by (cases r) (auto simp add: then_block_def split: flow.splits)

subsection \<open>The loop over the approaches\<close>

lemma Approaches_loop_append:
  "Approaches_loop api d args (xs @ ys) =
     (case Approaches_loop api d args xs of
        (l1, a1, Completed) \<Rightarrow>
          (case Approaches_loop api d args ys of
             (l2, a2, left) \<Rightarrow> (l1 @ l2, a1 @ a2, left))
      | r \<Rightarrow> r)"
proof (induction xs)
  case Nil
  show ?case by (simp split: prod.splits)
next
  case (Cons x xs)
  show ?case
    by (simp add: Cons.IH split: prod.splits flow.splits option.splits)
qed

text \<open>
  An approach whose pass through the loop body appends nothing and goes on leaves the
  list and the way the loop ends as they are without it.
\<close>

lemma Approaches_loop_skip:
  assumes "Approaches_approach api d args approach = (logs, None, Completed)"
  shows "snd (Approaches_loop api d args (before @ approach # rest)) =
         snd (Approaches_loop api d args (before @ rest))"
  using assms
  by (simp add: Approaches_loop_append split: prod.splits flow.splits)

lemma Approaches_derive_on_skip:
  assumes "Approaches_approach api d args approach = (logs, None, Completed)"
  shows "commits (fst (Approaches_derive_on api d args (before @ approach # rest))) =
         commits (fst (Approaches_derive_on api d args (before @ rest)))
       \<and> snd (Approaches_derive_on api d args (before @ approach # rest)) =
         snd (Approaches_derive_on api d args (before @ rest))"
  using Approaches_loop_skip [OF assms, of before rest]
  by (auto simp add: Approaches_derive_on_def commits_append commits_map_Logging
      split: prod.splits flow.splits)

text \<open>
  An approach whose pass through the loop body appends an entry and goes on: the
  approaches before it and after it give what they give without it, around its entry.
\<close>

lemma Approaches_loop_emit:
  assumes "Approaches_approach api d args approach = (logs, Some entry, Completed)"
    and "Approaches_loop api d args before = (logs_before, entries_before, Completed)"
    and "Approaches_loop api d args rest = (logs_rest, entries_rest, left)"
  shows "Approaches_loop api d args (before @ approach # rest) =
           (logs_before @ logs @ logs_rest, entries_before @ entry # entries_rest, left)"
  using assms by (simp add: Approaches_loop_append)

subsection \<open>The type of an approach\<close>

lemma one_within_truthy: "length (get_within key sl (entries n)) = 1 \<Longrightarrow> truthy n"
  by (cases n) (auto simp add: get_within_def)

lemma single_within_truthy: "get_within key sl (entries n) = [k] \<Longrightarrow> truthy n"
  by (cases n) (auto simp add: get_within_def)

text \<open>
  Claim C4 (the approach-type classifier). The classifier returns one type or none:
  \<open>LANDING\<close> when exactly one landing-heading key point value is within the
  interval; otherwise \<open>TOUCH_AND_GO\<close> when exactly one touch-and-go instant is;
  otherwise \<open>GO_AROUND\<close> when exactly one go-around instant is; otherwise none. So
  with one match of each, the type is \<open>LANDING\<close>. An approach with no type appends
  nothing (a warning is logged and the loop goes on): the list that is set, and the way
  the rule ends, are those of the same run without that approach.
\<close>

theorem approach_type_priority:
  "get_approach_type sl hdgs tgs gas =
     (if length (get_within kpv_index sl (entries hdgs)) = 1 then Some LANDING
      else if length (get_within kti_index sl (entries tgs)) = 1 then Some TOUCH_AND_GO
      else if length (get_within kti_index sl (entries gas)) = 1 then Some GO_AROUND
      else None)
   \<and> (get_approach_type (section_slice approach) (arg_landing_hdg_kpvs args)
         (arg_touch_and_gos args) (arg_go_arounds args) = None \<longrightarrow>
       Approaches_approach api d args approach = ([WARNING], None, Completed)
       \<and> commits (fst (Approaches_derive_on api d args (before @ approach # rest))) =
         commits (fst (Approaches_derive_on api d args (before @ rest)))
       \<and> snd (Approaches_derive_on api d args (before @ approach # rest)) =
         snd (Approaches_derive_on api d args (before @ rest)))"
proof (intro conjI impI)
  show "get_approach_type sl hdgs tgs gas =
     (if length (get_within kpv_index sl (entries hdgs)) = 1 then Some LANDING
      else if length (get_within kti_index sl (entries tgs)) = 1 then Some TOUCH_AND_GO
      else if length (get_within kti_index sl (entries gas)) = 1 then Some GO_AROUND
      else None)"
    using one_within_truthy [of kpv_index sl hdgs] one_within_truthy [of kti_index sl tgs]
      one_within_truthy [of kti_index sl gas]
    by (auto simp add: get_approach_type_def)
next
  assume n: "get_approach_type (section_slice approach) (arg_landing_hdg_kpvs args)
         (arg_touch_and_gos args) (arg_go_arounds args) = None"
  then show s: "Approaches_approach api d args approach = ([WARNING], None, Completed)"
    by (simp add: Approaches_approach_def)
  show "commits (fst (Approaches_derive_on api d args (before @ approach # rest))) =
         commits (fst (Approaches_derive_on api d args (before @ rest)))"
    using Approaches_derive_on_skip [OF s] by blast
  show "snd (Approaches_derive_on api d args (before @ approach # rest)) =
         snd (Approaches_derive_on api d args (before @ rest))"
    using Approaches_derive_on_skip [OF s] by blast
qed

text \<open>
  With one landing heading, one touch-and-go and one go-around within \<open>[0, 10)\<close> the
  type is \<open>LANDING\<close>; with none of them bound the approach has no type, and the rule
  sets the empty list, as it does for no approach at all.
\<close>

theorem approach_type_priority_witness:
  "get_approach_type \<lparr>start = 0, stop = 10\<rparr>
      (Some [\<lparr>kpv_index = 5, kpv_value = 270\<rparr>])
      (Some [\<lparr>kti_index = 3\<rparr>]) (Some [\<lparr>kti_index = 7\<rparr>]) = Some LANDING
   \<and> get_approach_type (section_slice example_approach) (arg_landing_hdg_kpvs example_args)
         (arg_touch_and_gos example_args) (arg_go_arounds example_args) = None
   \<and> Approaches_approach example_api example_datetime_of_index example_args example_approach
       = ([WARNING], None, Completed)
   \<and> commits (fst (Approaches_derive_on example_api example_datetime_of_index example_args
         ([] @ example_approach # []))) = [[]]"
proof -
  have n: "get_approach_type (section_slice example_approach)
      (arg_landing_hdg_kpvs example_args) (arg_touch_and_gos example_args)
      (arg_go_arounds example_args) = None"
    by (simp add: get_approach_type_def example_args_def)
  have e: "commits (fst (Approaches_derive_on example_api example_datetime_of_index
      example_args ([] @ []))) = [[]]"
    by (simp add: Approaches_derive_on_def)
  from n e approach_type_priority [of "\<lparr>start = 0, stop = 10\<rparr>"
      "Some [\<lparr>kpv_index = 5, kpv_value = 270\<rparr>]" "Some [\<lparr>kti_index = 3\<rparr>]"
      "Some [\<lparr>kti_index = 7\<rparr>]" example_approach example_args example_api
      example_datetime_of_index "[]" "[]"]
  show ?thesis
    by (simp add: get_within_def within_slice_def)
qed

subsection \<open>The position of an approach\<close>

lemma get_lat_lon_landing:
  assumes "get_within kpv_index sl (entries landing_lat) = [la]"
    and "get_within kpv_index sl (entries landing_lon) = [lo]"
  shows "get_lat_lon sl landing_lat landing_lon approach_lat approach_lon =
           (Some (kpv_value la), Some (kpv_value lo))"
  using assms single_within_truthy [OF assms(1)] single_within_truthy [OF assms(2)]
  by (simp add: get_lat_lon_def)

lemma get_lat_lon_not_landing:
  assumes "length (get_within kpv_index sl (entries landing_lat)) \<noteq> 1
           \<or> length (get_within kpv_index sl (entries landing_lon)) \<noteq> 1"
  shows "get_lat_lon sl landing_lat landing_lon approach_lat approach_lon =
           get_lat_lon sl None None approach_lat approach_lon"
  using assms
  by (auto simp add: get_lat_lon_def split: list.splits)

lemma get_lat_lon_approach:
  assumes "length (get_within kpv_index sl (entries landing_lat)) \<noteq> 1
           \<or> length (get_within kpv_index sl (entries landing_lon)) \<noteq> 1"
    and "get_within kpv_index sl (entries approach_lat) = [la]"
    and "get_within kpv_index sl (entries approach_lon) = [lo]"
  shows "get_lat_lon sl landing_lat landing_lon approach_lat approach_lon =
           (Some (kpv_value la), Some (kpv_value lo))"
proof -
  have "get_lat_lon sl None None approach_lat approach_lon =
          (Some (kpv_value la), Some (kpv_value lo))"
    using assms(2,3) single_within_truthy [OF assms(2)] single_within_truthy [OF assms(3)]
    by (simp add: get_lat_lon_def)
  then show ?thesis using get_lat_lon_not_landing [OF assms(1)] by simp
qed

lemma get_lat_lon_neither:
  assumes "length (get_within kpv_index sl (entries landing_lat)) \<noteq> 1
           \<or> length (get_within kpv_index sl (entries landing_lon)) \<noteq> 1"
    and "length (get_within kpv_index sl (entries approach_lat)) \<noteq> 1
           \<or> length (get_within kpv_index sl (entries approach_lon)) \<noteq> 1"
  shows "get_lat_lon sl landing_lat landing_lon approach_lat approach_lon = (None, None)"
proof -
  have "get_lat_lon sl None None approach_lat approach_lon = (None, None)"
    using assms(2) by (auto simp add: get_lat_lon_def split: list.splits)
  then show ?thesis using get_lat_lon_not_landing [OF assms(1)] by simp
qed

text \<open>
  Claim C8 (the position of an approach). For every interval and all four collections,
  bound or not: when exactly one landing latitude and exactly one landing longitude are
  within the interval, the pair of their values is returned; when that fails and exactly
  one approach latitude and exactly one approach longitude are within the interval, the
  pair of those; when both fail, the pair \<open>(None, None)\<close>.
\<close>

theorem get_lat_lon_prefers_landing:
  "(get_within kpv_index sl (entries landing_lat) = [lat_kpv]
      \<and> get_within kpv_index sl (entries landing_lon) = [lon_kpv] \<longrightarrow>
    get_lat_lon sl landing_lat landing_lon approach_lat approach_lon =
      (Some (kpv_value lat_kpv), Some (kpv_value lon_kpv)))
   \<and> ((length (get_within kpv_index sl (entries landing_lat)) \<noteq> 1
         \<or> length (get_within kpv_index sl (entries landing_lon)) \<noteq> 1)
       \<and> get_within kpv_index sl (entries approach_lat) = [lat_kpv]
       \<and> get_within kpv_index sl (entries approach_lon) = [lon_kpv] \<longrightarrow>
    get_lat_lon sl landing_lat landing_lon approach_lat approach_lon =
      (Some (kpv_value lat_kpv), Some (kpv_value lon_kpv)))
   \<and> ((length (get_within kpv_index sl (entries landing_lat)) \<noteq> 1
         \<or> length (get_within kpv_index sl (entries landing_lon)) \<noteq> 1)
       \<and> (length (get_within kpv_index sl (entries approach_lat)) \<noteq> 1
         \<or> length (get_within kpv_index sl (entries approach_lon)) \<noteq> 1) \<longrightarrow>
    get_lat_lon sl landing_lat landing_lon approach_lat approach_lon = (None, None))"
  using get_lat_lon_landing [of sl landing_lat lat_kpv landing_lon lon_kpv]
    get_lat_lon_approach [of sl landing_lat landing_lon approach_lat lat_kpv approach_lon lon_kpv]
    get_lat_lon_neither [of sl landing_lat landing_lon approach_lat approach_lon]
  by blast

text \<open>
  Landing and approach positions both within \<open>[0, 10)\<close>: the landing pair. Two landing
  latitudes within the interval: the approach pair. No approach pair either: nothing.
\<close>

theorem get_lat_lon_prefers_landing_witness:
  "get_lat_lon \<lparr>start = 0, stop = 10\<rparr>
      (Some [\<lparr>kpv_index = 8, kpv_value = 51\<rparr>]) (Some [\<lparr>kpv_index = 8, kpv_value = 1\<rparr>])
      (Some [\<lparr>kpv_index = 6, kpv_value = 52\<rparr>]) (Some [\<lparr>kpv_index = 6, kpv_value = 2\<rparr>])
     = (Some 51, Some 1)
   \<and> get_lat_lon \<lparr>start = 0, stop = 10\<rparr>
      (Some [\<lparr>kpv_index = 8, kpv_value = 51\<rparr>, \<lparr>kpv_index = 9, kpv_value = 50\<rparr>])
      (Some [\<lparr>kpv_index = 8, kpv_value = 1\<rparr>])
      (Some [\<lparr>kpv_index = 6, kpv_value = 52\<rparr>]) (Some [\<lparr>kpv_index = 6, kpv_value = 2\<rparr>])
     = (Some 52, Some 2)
   \<and> get_lat_lon \<lparr>start = 0, stop = 10\<rparr>
      (Some [\<lparr>kpv_index = 8, kpv_value = 51\<rparr>, \<lparr>kpv_index = 9, kpv_value = 50\<rparr>])
      (Some [\<lparr>kpv_index = 8, kpv_value = 1\<rparr>])
      None (Some [\<lparr>kpv_index = 6, kpv_value = 2\<rparr>])
     = (None, None)"
  using get_lat_lon_prefers_landing [of "\<lparr>start = 0, stop = 10\<rparr>"
      "Some [\<lparr>kpv_index = 8, kpv_value = 51\<rparr>]" "\<lparr>kpv_index = 8, kpv_value = 51\<rparr>"
      "Some [\<lparr>kpv_index = 8, kpv_value = 1\<rparr>]" "\<lparr>kpv_index = 8, kpv_value = 1\<rparr>"
      "Some [\<lparr>kpv_index = 6, kpv_value = 52\<rparr>]" "Some [\<lparr>kpv_index = 6, kpv_value = 2\<rparr>]"]
    get_lat_lon_prefers_landing [of "\<lparr>start = 0, stop = 10\<rparr>"
      "Some [\<lparr>kpv_index = 8, kpv_value = 51\<rparr>, \<lparr>kpv_index = 9, kpv_value = 50\<rparr>]"
      "\<lparr>kpv_index = 6, kpv_value = 52\<rparr>"
      "Some [\<lparr>kpv_index = 8, kpv_value = 1\<rparr>]" "\<lparr>kpv_index = 6, kpv_value = 2\<rparr>"
      "Some [\<lparr>kpv_index = 6, kpv_value = 52\<rparr>]" "Some [\<lparr>kpv_index = 6, kpv_value = 2\<rparr>]"]
    get_lat_lon_prefers_landing [of "\<lparr>start = 0, stop = 10\<rparr>"
      "Some [\<lparr>kpv_index = 8, kpv_value = 51\<rparr>, \<lparr>kpv_index = 9, kpv_value = 50\<rparr>]"
      "\<lparr>kpv_index = 6, kpv_value = 52\<rparr>"
      "Some [\<lparr>kpv_index = 8, kpv_value = 1\<rparr>]" "\<lparr>kpv_index = 6, kpv_value = 2\<rparr>"
      None "Some [\<lparr>kpv_index = 6, kpv_value = 2\<rparr>]"]
  by (simp add: get_within_def within_slice_def)

subsection \<open>Zero values in Approaches.derive\<close>




subsection \<open>The nearest double\<close>

lemma round_half_even_error: "\<bar>of_int (round_half_even y) - y\<bar> \<le> 1 / 2"
  unfolding round_half_even_def by (auto simp add: abs_if) linarith+

lemma round_half_even_of_int: "round_half_even (of_int k) = k"
  by (simp add: round_half_even_def)

lemma binade_lower:
  assumes "x \<noteq> 0"
  shows "2 powr of_int \<lfloor>log 2 \<bar>x\<bar>\<rfloor> \<le> \<bar>x\<bar>"
  using le_log_iff [of 2 "\<bar>x\<bar>" "of_int \<lfloor>log 2 \<bar>x\<bar>\<rfloor>"] assms by simp

text \<open>The binade of a number that lies between two consecutive powers of two.\<close>

lemma binade_eq:
  assumes "2 powr of_int e \<le> \<bar>x\<bar>" and "\<bar>x\<bar> < 2 powr (of_int e + 1)"
  shows "\<lfloor>log 2 \<bar>x\<bar>\<rfloor> = e"
proof -
  have pos: "0 < \<bar>x\<bar>" using assms(1) powr_gt_zero [of 2 "of_int e"] by linarith
  have "of_int e \<le> log 2 \<bar>x\<bar>" using assms(1) pos by (simp add: le_log_iff)
  moreover have "log 2 \<bar>x\<bar> < of_int e + 1"
  proof -
    have "2 powr log 2 \<bar>x\<bar> < 2 powr (of_int e + 1)" using assms(2) pos by simp
    then show ?thesis by (subst (asm) powr_less_cancel_iff) simp_all
  qed
  ultimately show ?thesis by linarith
qed

lemma to_double_in_binade:
  assumes "2 powr of_int e \<le> \<bar>x\<bar>" and "\<bar>x\<bar> < 2 powr (of_int e + 1)"
  shows "to_double x =
           of_int (round_half_even (x / 2 powr (of_int e - 52))) * 2 powr (of_int e - 52)"
proof -
  have "x \<noteq> 0" using assms(1) powr_gt_zero [of 2 "of_int e"] by auto
  then show ?thesis using binade_eq [OF assms] by (simp add: to_double_def)
qed

text \<open>The nearest double is within half a unit in the last place: a relative error of \<open>2^-53\<close>.\<close>

lemma to_double_error: "\<bar>to_double x - x\<bar> \<le> \<bar>x\<bar> / 2 ^ 53"
proof (cases "x = 0")
  case True
  then show ?thesis by (simp add: to_double_def)
next
  case False
  define e where "e = \<lfloor>log 2 \<bar>x\<bar>\<rfloor>"
  define u :: real where "u = 2 powr (of_int e - 52)"
  have u: "0 < u" by (simp add: u_def)
  have "to_double x - x = (of_int (round_half_even (x / u)) - x / u) * u"
    using False u by (simp add: to_double_def e_def u_def algebra_simps)
  then have "\<bar>to_double x - x\<bar> = \<bar>of_int (round_half_even (x / u)) - x / u\<bar> * u"
    using u by (simp add: abs_mult)
  also have "\<dots> \<le> 1 / 2 * u"
    using round_half_even_error [of "x / u"] u by (intro mult_right_mono) auto
  also have "\<dots> = 2 powr of_int e / 2 ^ 53"
    by (simp add: u_def powr_diff)
  also have "\<dots> \<le> \<bar>x\<bar> / 2 ^ 53"
    using binade_lower [OF False] by (simp add: e_def divide_right_mono)
  finally show ?thesis .
qed

text \<open>An integer below \<open>2^53\<close> in size is a double.\<close>

lemma to_double_of_int:
  assumes "\<bar>n\<bar> < 2 ^ 53"
  shows "to_double (of_int n) = of_int n"
proof (cases "n = 0")
  case True
  then show ?thesis by (simp add: to_double_def)
next
  case False
  define x :: real where "x = of_int n"
  define e where "e = \<lfloor>log 2 \<bar>x\<bar>\<rfloor>"
  have x0: "x \<noteq> 0" using False by (simp add: x_def)
  have "\<bar>x\<bar> < 2 ^ 53" using assms unfolding x_def
    by (metis of_int_abs of_int_less_numeral_power_cancel_iff)
  moreover have "(2::real) powr 53 = 2 ^ 53" by (simp add: powr_numeral)
  ultimately have "(2::real) powr of_int e < 2 powr 53"
    using binade_lower [OF x0] by (simp add: e_def)
  then have "of_int e < (53::real)"
    using powr_less_cancel_iff [of 2 "of_int e" 53] by simp
  then have e52: "e \<le> 52" by linarith
  define k where "k = nat (52 - e)"
  have k: "of_int e - 52 = - real k" using e52 by (simp add: k_def)
  have u: "(2::real) powr (of_int e - 52) = 1 / 2 ^ k"
    by (simp add: k powr_minus powr_realpow divide_inverse)
  have "x / 2 powr (of_int e - 52) = of_int (n * 2 ^ k)"
    by (simp add: u x_def)
  then have "round_half_even (x / 2 powr (of_int e - 52)) = n * 2 ^ k"
    by (simp only: round_half_even_of_int)
  then have "to_double x = of_int (n * 2 ^ k) * (1 / 2 ^ k)"
    using x0 by (simp add: to_double_def e_def [symmetric] u)
  then show ?thesis by (simp add: x_def)
qed

text \<open>
  One millionth lies in the binade of \<open>2^-20\<close>, where the doubles are the multiples of
  \<open>2^-72\<close>; \<open>2^72 / 10^6\<close> is \<open>4722366482869645.213696\<close>.
\<close>

lemma to_double_one_millionth: "to_double (1 / 1000000) = 4722366482869645 / 2 ^ 72"
proof -
  have b: "2 powr of_int (- 20) \<le> \<bar>1 / 1000000 :: real\<bar>"
    "\<bar>1 / 1000000 :: real\<bar> < 2 powr (of_int (- 20) + 1)"
    by (simp_all add: powr_minus powr_numeral divide_simps)
  have u: "(2::real) powr (of_int (- 20) - 52) = 1 / 2 ^ 72"
    by (simp add: powr_minus powr_numeral divide_simps)
  have f: "\<lfloor>(2::real) ^ 72 / 1000000\<rfloor> = 4722366482869645"
    by (simp add: floor_eq_iff)
  have r: "round_half_even (2 ^ 72 / 1000000) = 4722366482869645"
    by (simp add: round_half_even_def f)
  have q: "(1 / 1000000 :: real) / (1 / 2 ^ 72) = 2 ^ 72 / 1000000" by simp
  have "to_double (1 / 1000000) =
      of_int (round_half_even ((1 / 1000000) / 2 powr (of_int (- 20) - 52)))
        * 2 powr (of_int (- 20) - 52)"
    by (rule to_double_in_binade [OF b])
  also have "\<dots> = of_int (round_half_even (2 ^ 72 / 1000000)) * (1 / 2 ^ 72)"
    by (simp only: u q)
  also have "\<dots> = 4722366482869645 / 2 ^ 72"
    by (simp only: r)
  finally show ?thesis .
qed

subsection \<open>Duration\<close>

text \<open>
  A takeoff at microsecond 0 and a landing one microsecond later. The value set is the
  double nearest to one millionth of a second, \<open>4722366482869645 / 2^72\<close>, and that
  is not one millionth: the landing datetime minus the takeoff datetime, in seconds, is
  not what the attribute holds.
\<close>

theorem Duration_one_microsecond:
  "Duration_derive (Attribute (Some 0)) (Attribute (Some 1)) =
     ([Set_flight_attr (Some (4722366482869645 / 2 ^ 72))], Completed)
   \<and> (4722366482869645 / 2 ^ 72 :: real) \<noteq> real_of_int (1 - 0) / 1000000"
  by (simp add: Duration_derive_def total_seconds_def to_double_one_millionth)

text \<open>
  Claim C6, as amended (Duration). With both datetimes present the value set is the
  float nearest to the landing datetime minus the takeoff datetime in seconds (datetimes
  count microseconds): it is within a relative error of \<open>2^-53\<close> of that difference,
  and it is the difference itself when that is a whole number of seconds below
  \<open>2^53\<close>. When either datetime is \<open>None\<close>, \<open>None\<close> is set. The rule always sets
  its attribute, so the attribute after a derivation does not depend on what it was
  before: a second derivation from the same inputs leaves what the first one left.
\<close>

theorem Duration_nearest_double:
  "Duration_derive (Attribute (Some takeoff)) (Attribute (Some landing)) =
     ([Set_flight_attr (Some (to_double (real_of_int (landing - takeoff) / 1000000)))],
      Completed)
   \<and> \<bar>to_double (real_of_int (landing - takeoff) / 1000000)
        - real_of_int (landing - takeoff) / 1000000\<bar>
      \<le> \<bar>real_of_int (landing - takeoff) / 1000000\<bar> / 2 ^ 53
   \<and> (landing - takeoff = seconds * 1000000 \<and> \<bar>seconds\<bar> < 2 ^ 53 \<longrightarrow>
       Duration_derive (Attribute (Some takeoff)) (Attribute (Some landing)) =
         ([Set_flight_attr (Some (real_of_int seconds))], Completed))
   \<and> Duration_derive (Attribute None) landing_dt = ([Set_flight_attr None], Returned)
   \<and> Duration_derive takeoff_dt (Attribute None) = ([Set_flight_attr None], Returned)
   \<and> attribute_after (fst (Duration_derive takeoff_dt landing_dt)) before =
      attribute_after (fst (Duration_derive takeoff_dt landing_dt)) None
   \<and> attribute_after (fst (Duration_derive takeoff_dt landing_dt))
        (attribute_after (fst (Duration_derive takeoff_dt landing_dt)) before) =
      attribute_after (fst (Duration_derive takeoff_dt landing_dt)) before"
proof (intro conjI impI)
  show "Duration_derive (Attribute (Some takeoff)) (Attribute (Some landing)) =
     ([Set_flight_attr (Some (to_double (real_of_int (landing - takeoff) / 1000000)))],
      Completed)"
    by (simp add: Duration_derive_def total_seconds_def)
  show "\<bar>to_double (real_of_int (landing - takeoff) / 1000000)
        - real_of_int (landing - takeoff) / 1000000\<bar>
      \<le> \<bar>real_of_int (landing - takeoff) / 1000000\<bar> / 2 ^ 53"
    by (rule to_double_error)
  show "Duration_derive (Attribute None) landing_dt = ([Set_flight_attr None], Returned)"
    by (cases landing_dt) (simp add: Duration_derive_def split: option.splits)
  show "Duration_derive takeoff_dt (Attribute None) = ([Set_flight_attr None], Returned)"
    by (cases takeoff_dt) (simp add: Duration_derive_def split: option.splits)
  show i: "attribute_after (fst (Duration_derive takeoff_dt landing_dt)) b =
      attribute_after (fst (Duration_derive takeoff_dt landing_dt)) None" for b
    by (cases takeoff_dt; cases landing_dt)
      (simp add: Duration_derive_def split: option.splits)
  show "attribute_after (fst (Duration_derive takeoff_dt landing_dt))
        (attribute_after (fst (Duration_derive takeoff_dt landing_dt)) before) =
      attribute_after (fst (Duration_derive takeoff_dt landing_dt)) before"
    using i [of before]
      i [of "attribute_after (fst (Duration_derive takeoff_dt landing_dt)) before"]
    by simp
next
  assume a: "landing - takeoff = seconds * 1000000 \<and> \<bar>seconds\<bar> < 2 ^ 53"
  then have "real_of_int (landing - takeoff) / 1000000 = real_of_int seconds" by simp
  moreover have "to_double (real_of_int seconds) = real_of_int seconds"
    using a by (intro to_double_of_int) simp
  ultimately show "Duration_derive (Attribute (Some takeoff)) (Attribute (Some landing)) =
         ([Set_flight_attr (Some (real_of_int seconds))], Completed)"
    by (simp add: Duration_derive_def total_seconds_def)
qed

text \<open>
  A takeoff at 10:00:00 and a landing at 12:00:00 of the same day: 7200 seconds. A
  landing one microsecond after the takeoff: the double nearest to one millionth.
\<close>

theorem Duration_nearest_double_witness:
  "Duration_derive (Attribute (Some 36000000000)) (Attribute (Some 43200000000)) =
     ([Set_flight_attr (Some 7200)], Completed)
   \<and> Duration_derive (Attribute (Some 0)) (Attribute (Some 1)) =
     ([Set_flight_attr (Some (to_double (1 / 1000000)))], Completed)
   \<and> Duration_derive (Attribute None) (Attribute (Some 43200000000)) =
     ([Set_flight_attr None], Returned)
   \<and> Duration_derive (Attribute (Some 36000000000)) (Attribute None) =
     ([Set_flight_attr None], Returned)
   \<and> attribute_after
        (fst (Duration_derive (Attribute (Some 36000000000)) (Attribute (Some 43200000000))))
        (Some None) = Some (Some 7200)"
proof -
  have h: "(43200000000::int) - 36000000000 = 7200 * 1000000 \<and> \<bar>7200::int\<bar> < 2 ^ 53"
    by simp
  note d = Duration_nearest_double [of 36000000000 43200000000 7200
      "Attribute (Some 43200000000)" "Attribute (Some 36000000000)" "Some None"]
  from h d
  have "Duration_derive (Attribute (Some 36000000000)) (Attribute (Some 43200000000)) =
     ([Set_flight_attr (Some (real_of_int 7200))], Completed)"
    by blast
  then have w1: "Duration_derive (Attribute (Some 36000000000))
      (Attribute (Some 43200000000)) = ([Set_flight_attr (Some 7200)], Completed)"
    by simp
  from d have w3: "Duration_derive (Attribute None) (Attribute (Some 43200000000)) =
     ([Set_flight_attr None], Returned)"
    by blast
  from d have w4: "Duration_derive (Attribute (Some 36000000000)) (Attribute None) =
     ([Set_flight_attr None], Returned)"
    by blast
  from Duration_nearest_double [of 0 1 0 "Attribute (Some 1)" "Attribute (Some 0)" None]
  have w2: "Duration_derive (Attribute (Some 0)) (Attribute (Some 1)) =
     ([Set_flight_attr (Some (to_double (1 / 1000000)))], Completed)"
    by simp
  from w1 have w5: "attribute_after
      (fst (Duration_derive (Attribute (Some 36000000000)) (Attribute (Some 43200000000))))
      (Some None) = Some (Some 7200)"
    by simp
  from w1 w2 w3 w4 w5 show ?thesis by blast
qed

subsection \<open>Lookups that find nothing\<close>

lemma not_found_approach_airport:
  assumes "get_approach_type (section_slice approach) (arg_landing_hdg_kpvs args)
             (arg_touch_and_gos args) (arg_go_arounds args) = Some approach_type"
    and "get_lat_lon (section_slice approach) (arg_landing_lat_kpvs args)
           (arg_landing_lon_kpvs args) (arg_approach_lat_kpvs args)
           (arg_approach_lon_kpvs args) = (Some lat, Some lon)"
    and "lat \<noteq> 0" and "lon \<noteq> 0"
    and "get_nearest_airport api lat lon = Inl NotFoundError"
  shows "Approaches_approach api d args approach = ([WARNING], None, Completed)"
  using assms by (simp add: Approaches_approach_def nonzero_def Let_def)

lemma not_found_approach_runway:
  assumes "get_approach_type (section_slice approach) (arg_landing_hdg_kpvs args)
             (arg_touch_and_gos args) (arg_go_arounds args) = Some approach_type"
    and "get_lat_lon (section_slice approach) (arg_landing_lat_kpvs args)
           (arg_landing_lon_kpvs args) (arg_approach_lat_kpvs args)
           (arg_approach_lon_kpvs args) = (Some lat, Some lon)"
    and "lat \<noteq> 0" and "lon \<noteq> 0"
    and "get_nearest_airport api lat lon = Inr airport"
    and "get_hdg (section_slice approach) (arg_landing_hdg_kpvs args)
           (arg_approach_hdg_kpvs args) = Some hdg"
    and "hdg \<noteq> 0"
    and "get_nearest_runway api (airport_id airport) hdg
           (approach_kwargs args (section_slice approach) lat lon) = Inl NotFoundError"
  shows "Approaches_approach api d args approach =
           ([WARNING],
            Some \<lparr>approach_airport = airport_id airport, approach_runway = None,
                  approach_kind = approach_type,
                  approach_datetime =
                    d (arg_start_datetime args) (stop (section_slice approach))
                      (arg_frequency args)\<rparr>,
            Completed)"
  using assms by (simp add: Approaches_approach_def nonzero_def Let_def)

lemma not_found_landing_airport:
  assumes "get_last kpv_index landing_latitude = Some last_latitude"
    and "get_last kpv_index landing_longitude = Some last_longitude"
    and "get_nearest_airport api (kpv_value last_latitude) (kpv_value last_longitude) =
           Inl NotFoundError"
  shows "LandingAirport_derive api landing_latitude landing_longitude =
           ([Logging WARNING, Set_flight_attr None], Completed)"
  using assms by (simp add: LandingAirport_derive_def)

lemma not_found_takeoff_airport:
  assumes "array_at (array latitude) (kti_index liftoff_kti) = Inr latitude_at_liftoff"
    and "array_at (array longitude) (kti_index liftoff_kti) = Inr longitude_at_liftoff"
    and "get_nearest_airport api latitude_at_liftoff longitude_at_liftoff =
           Inl NotFoundError"
  shows "TakeoffAirport_derive api (liftoff_kti # liftoffs) latitude longitude =
           ([Logging WARNING], Completed)"
  using assms by (simp add: TakeoffAirport_derive_def)

lemma not_found_takeoff_runway:
  assumes "TakeoffRunway_kwargs liftoff latitude longitude precision = Inr kwargs"
    and "get_nearest_runway api (airport_id airport_value) (kpv_value hdg_kpv) kwargs =
           Inl NotFoundError"
  shows "TakeoffRunway_derive api (Attribute (Some airport_value)) (hdg_kpv # hdgs) liftoff
           latitude longitude precision = ([Logging WARNING], Completed)"
  using assms by (simp add: TakeoffRunway_derive_def)

lemma not_found_landing_runway:
  assumes "get_last (\<lambda>s. stop (section_slice s)) approach_and_landing = Some landing"
    and "get_last kpv_index (get_within kpv_index (section_slice landing) landing_hdg) =
           Some heading_kpv"
    and "get_nearest_runway api (airport_id airport_value) (kpv_value heading_kpv)
           (LandingRunway_kwargs (section_slice landing) landing_latitude
              landing_longitude approach_ilsfreq precision) = Inl NotFoundError"
  shows "LandingRunway_derive api approach_and_landing landing_hdg
           (Attribute (Some airport_value)) landing_latitude landing_longitude
           approach_ilsfreq precision = ([Logging WARNING], Completed)"
  using assms by (simp add: LandingRunway_derive_def)

text \<open>
  Claim C7 (a lookup that finds nothing). At each of the six call sites, when the lookup
  raises \<open>NotFoundError\<close> the rule logs a warning and ends without an exception. In
  the loop of Approaches, an airport that is not found drops the approach (the list set
  is that of the run without it, and the loop goes on with the remaining approaches),
  and a runway that is not found gives the entry the runway \<open>None\<close>: the loop goes
  on, and the list has the entries of the approaches before, this entry, and the entries
  of the remaining approaches, which the rule then sets. LandingAirport sets \<open>None\<close>;
  TakeoffAirport, TakeoffRunway and LandingRunway set nothing.
\<close>

theorem lookup_not_found_is_local:
  "(get_approach_type (section_slice approach) (arg_landing_hdg_kpvs args)
        (arg_touch_and_gos args) (arg_go_arounds args) = Some approach_type
      \<and> get_lat_lon (section_slice approach) (arg_landing_lat_kpvs args)
        (arg_landing_lon_kpvs args) (arg_approach_lat_kpvs args)
        (arg_approach_lon_kpvs args) = (Some lat, Some lon)
      \<and> lat \<noteq> 0 \<and> lon \<noteq> 0
      \<and> get_nearest_airport api lat lon = Inl NotFoundError \<longrightarrow>
    Approaches_approach api d args approach = ([WARNING], None, Completed)
    \<and> commits (fst (Approaches_derive_on api d args (before @ approach # rest))) =
      commits (fst (Approaches_derive_on api d args (before @ rest)))
    \<and> snd (Approaches_derive_on api d args (before @ approach # rest)) =
      snd (Approaches_derive_on api d args (before @ rest)))
   \<and> (get_approach_type (section_slice approach) (arg_landing_hdg_kpvs args)
        (arg_touch_and_gos args) (arg_go_arounds args) = Some approach_type
      \<and> get_lat_lon (section_slice approach) (arg_landing_lat_kpvs args)
        (arg_landing_lon_kpvs args) (arg_approach_lat_kpvs args)
        (arg_approach_lon_kpvs args) = (Some lat, Some lon)
      \<and> lat \<noteq> 0 \<and> lon \<noteq> 0
      \<and> get_nearest_airport api lat lon = Inr airport
      \<and> get_hdg (section_slice approach) (arg_landing_hdg_kpvs args)
           (arg_approach_hdg_kpvs args) = Some hdg
      \<and> hdg \<noteq> 0
      \<and> get_nearest_runway api (airport_id airport) hdg
           (approach_kwargs args (section_slice approach) lat lon) = Inl NotFoundError \<longrightarrow>
    Approaches_approach api d args approach =
      ([WARNING],
       Some \<lparr>approach_airport = airport_id airport, approach_runway = None,
             approach_kind = approach_type,
             approach_datetime =
               d (arg_start_datetime args) (stop (section_slice approach))
                 (arg_frequency args)\<rparr>,
       Completed)
    \<and> (Approaches_loop api d args before = (logs_before, entries_before, Completed)
        \<and> Approaches_loop api d args rest = (logs_rest, entries_rest, left) \<longrightarrow>
       Approaches_loop api d args (before @ approach # rest) =
         (logs_before @ WARNING # logs_rest,
          entries_before
            @ \<lparr>approach_airport = airport_id airport, approach_runway = None,
                approach_kind = approach_type,
                approach_datetime =
                  d (arg_start_datetime args) (stop (section_slice approach))
                    (arg_frequency args)\<rparr>
            # entries_rest,
          left))
    \<and> (Approaches_loop api d args before = (logs_before, entries_before, Completed)
        \<and> Approaches_loop api d args rest = (logs_rest, entries_rest, Completed) \<longrightarrow>
       Approaches_derive_on api d args (before @ approach # rest) =
         (map Logging (logs_before @ WARNING # logs_rest)
            @ [Set_flight_attr
                 (entries_before
                    @ \<lparr>approach_airport = airport_id airport, approach_runway = None,
                        approach_kind = approach_type,
                        approach_datetime =
                          d (arg_start_datetime args) (stop (section_slice approach))
                            (arg_frequency args)\<rparr>
                    # entries_rest)],
          Completed)))
   \<and> (get_last kpv_index landing_latitude = Some last_latitude
      \<and> get_last kpv_index landing_longitude = Some last_longitude
      \<and> get_nearest_airport api (kpv_value last_latitude) (kpv_value last_longitude) =
           Inl NotFoundError \<longrightarrow>
    LandingAirport_derive api landing_latitude landing_longitude =
      ([Logging WARNING, Set_flight_attr None], Completed))
   \<and> (array_at (array latitude) (kti_index liftoff_kti) = Inr latitude_at_liftoff
      \<and> array_at (array longitude) (kti_index liftoff_kti) = Inr longitude_at_liftoff
      \<and> get_nearest_airport api latitude_at_liftoff longitude_at_liftoff =
           Inl NotFoundError \<longrightarrow>
    TakeoffAirport_derive api (liftoff_kti # liftoffs) latitude longitude =
      ([Logging WARNING], Completed))
   \<and> (TakeoffRunway_kwargs liftoff opt_latitude opt_longitude precision = Inr kwargs
      \<and> get_nearest_runway api (airport_id airport_value) (kpv_value hdg_kpv) kwargs =
           Inl NotFoundError \<longrightarrow>
    TakeoffRunway_derive api (Attribute (Some airport_value)) (hdg_kpv # hdgs) liftoff
      opt_latitude opt_longitude precision = ([Logging WARNING], Completed))
   \<and> (get_last (\<lambda>s. stop (section_slice s)) approach_and_landing = Some landing
      \<and> get_last kpv_index (get_within kpv_index (section_slice landing) landing_hdg) =
           Some heading_kpv
      \<and> get_nearest_runway api (airport_id airport_value) (kpv_value heading_kpv)
           (LandingRunway_kwargs (section_slice landing) landing_lat_kpvs
              landing_lon_kpvs approach_ilsfreq precision) = Inl NotFoundError \<longrightarrow>
    LandingRunway_derive api approach_and_landing landing_hdg
      (Attribute (Some airport_value)) landing_lat_kpvs landing_lon_kpvs
      approach_ilsfreq precision = ([Logging WARNING], Completed))"
proof (intro conjI impI)
  assume a: "get_approach_type (section_slice approach) (arg_landing_hdg_kpvs args)
        (arg_touch_and_gos args) (arg_go_arounds args) = Some approach_type
      \<and> get_lat_lon (section_slice approach) (arg_landing_lat_kpvs args)
        (arg_landing_lon_kpvs args) (arg_approach_lat_kpvs args)
        (arg_approach_lon_kpvs args) = (Some lat, Some lon)
      \<and> lat \<noteq> 0 \<and> lon \<noteq> 0
      \<and> get_nearest_airport api lat lon = Inl NotFoundError"
  then show s: "Approaches_approach api d args approach = ([WARNING], None, Completed)"
    using not_found_approach_airport by blast
  show "commits (fst (Approaches_derive_on api d args (before @ approach # rest))) =
      commits (fst (Approaches_derive_on api d args (before @ rest)))"
    using Approaches_derive_on_skip [OF s] by blast
  show "snd (Approaches_derive_on api d args (before @ approach # rest)) =
      snd (Approaches_derive_on api d args (before @ rest))"
    using Approaches_derive_on_skip [OF s] by blast
next
  assume r: "get_approach_type (section_slice approach) (arg_landing_hdg_kpvs args)
        (arg_touch_and_gos args) (arg_go_arounds args) = Some approach_type
      \<and> get_lat_lon (section_slice approach) (arg_landing_lat_kpvs args)
        (arg_landing_lon_kpvs args) (arg_approach_lat_kpvs args)
        (arg_approach_lon_kpvs args) = (Some lat, Some lon)
      \<and> lat \<noteq> 0 \<and> lon \<noteq> 0
      \<and> get_nearest_airport api lat lon = Inr airport
      \<and> get_hdg (section_slice approach) (arg_landing_hdg_kpvs args)
           (arg_approach_hdg_kpvs args) = Some hdg
      \<and> hdg \<noteq> 0
      \<and> get_nearest_runway api (airport_id airport) hdg
           (approach_kwargs args (section_slice approach) lat lon) = Inl NotFoundError"
  then show s: "Approaches_approach api d args approach =
      ([WARNING],
       Some \<lparr>approach_airport = airport_id airport, approach_runway = None,
             approach_kind = approach_type,
             approach_datetime =
               d (arg_start_datetime args) (stop (section_slice approach))
                 (arg_frequency args)\<rparr>,
       Completed)"
    using not_found_approach_runway by blast
  {
    assume "Approaches_loop api d args before = (logs_before, entries_before, Completed)
        \<and> Approaches_loop api d args rest = (logs_rest, entries_rest, left)"
    then show "Approaches_loop api d args (before @ approach # rest) =
         (logs_before @ WARNING # logs_rest,
          entries_before
            @ \<lparr>approach_airport = airport_id airport, approach_runway = None,
                approach_kind = approach_type,
                approach_datetime =
                  d (arg_start_datetime args) (stop (section_slice approach))
                    (arg_frequency args)\<rparr>
            # entries_rest,
          left)"
      using Approaches_loop_emit [OF s, of before logs_before entries_before rest
          logs_rest entries_rest left]
      by simp
  }
  {
    assume "Approaches_loop api d args before = (logs_before, entries_before, Completed)
        \<and> Approaches_loop api d args rest = (logs_rest, entries_rest, Completed)"
    then show "Approaches_derive_on api d args (before @ approach # rest) =
         (map Logging (logs_before @ WARNING # logs_rest)
            @ [Set_flight_attr
                 (entries_before
                    @ \<lparr>approach_airport = airport_id airport, approach_runway = None,
                        approach_kind = approach_type,
                        approach_datetime =
                          d (arg_start_datetime args) (stop (section_slice approach))
                            (arg_frequency args)\<rparr>
                    # entries_rest)],
          Completed)"
      using Approaches_loop_emit [OF s, of before logs_before entries_before rest
          logs_rest entries_rest Completed]
      by (simp add: Approaches_derive_on_def)
  }
qed (blast intro: not_found_landing_airport
    not_found_takeoff_airport not_found_takeoff_runway not_found_landing_runway)+

text \<open>
  The example service finds no airport at latitude 40, longitude 2, and no runway of
  heading 90 at the airport it knows. With two approaches whose runway is not found,
  the list set has both entries.
\<close>

theorem lookup_not_found_is_local_witness:
  "Approaches_derive_on example_api example_datetime_of_index
      (example_args\<lparr>
         arg_landing_hdg_kpvs := Some [\<lparr>kpv_index = 5, kpv_value = 270\<rparr>],
         arg_landing_lat_kpvs := Some [\<lparr>kpv_index = 5, kpv_value = 40\<rparr>],
         arg_landing_lon_kpvs := Some [\<lparr>kpv_index = 5, kpv_value = 2\<rparr>]\<rparr>)
      ([] @ example_approach # []) = ([Logging WARNING, Set_flight_attr []], Completed)
   \<and> Approaches_approach example_api example_datetime_of_index
      (example_args\<lparr>
         arg_landing_hdg_kpvs := Some [\<lparr>kpv_index = 5, kpv_value = 90\<rparr>],
         arg_landing_lat_kpvs := Some [\<lparr>kpv_index = 5, kpv_value = 51\<rparr>],
         arg_landing_lon_kpvs := Some [\<lparr>kpv_index = 5, kpv_value = 1\<rparr>]\<rparr>)
      example_approach =
        ([WARNING],
         Some \<lparr>approach_airport = 2383, approach_runway = None, approach_kind = LANDING,
               approach_datetime = 0\<rparr>,
         Completed)
   \<and> Approaches_derive_on example_api example_datetime_of_index
      (example_args\<lparr>
         arg_landing_hdg_kpvs := Some [\<lparr>kpv_index = 5, kpv_value = 90\<rparr>],
         arg_landing_lat_kpvs := Some [\<lparr>kpv_index = 5, kpv_value = 51\<rparr>],
         arg_landing_lon_kpvs := Some [\<lparr>kpv_index = 5, kpv_value = 1\<rparr>]\<rparr>)
      ([] @ example_approach # [example_approach]) =
        ([Logging WARNING, Logging WARNING,
          Set_flight_attr
            [\<lparr>approach_airport = 2383, approach_runway = None, approach_kind = LANDING,
               approach_datetime = 0\<rparr>,
             \<lparr>approach_airport = 2383, approach_runway = None, approach_kind = LANDING,
               approach_datetime = 0\<rparr>]],
         Completed)
   \<and> LandingAirport_derive example_api [\<lparr>kpv_index = 5, kpv_value = 40\<rparr>]
        [\<lparr>kpv_index = 5, kpv_value = 2\<rparr>] =
        ([Logging WARNING, Set_flight_attr None], Completed)
   \<and> TakeoffAirport_derive example_api [\<lparr>kti_index = 1\<rparr>] \<lparr>array = [40, 40]\<rparr>
        \<lparr>array = [2, 2]\<rparr> = ([Logging WARNING], Completed)
   \<and> TakeoffRunway_derive example_api
        (Attribute (Some \<lparr>airport_id = 2383, airport_name = ''London Heathrow''\<rparr>))
        [\<lparr>kpv_index = 1, kpv_value = 90\<rparr>] None None None None =
        ([Logging WARNING], Completed)
   \<and> LandingRunway_derive example_api [example_approach]
        [\<lparr>kpv_index = 5, kpv_value = 90\<rparr>]
        (Attribute (Some \<lparr>airport_id = 2383, airport_name = ''London Heathrow''\<rparr>))
        None None None None = ([Logging WARNING], Completed)"
proof -
  let ?a1 = "example_args\<lparr>
         arg_landing_hdg_kpvs := Some [\<lparr>kpv_index = 5, kpv_value = 270\<rparr>],
         arg_landing_lat_kpvs := Some [\<lparr>kpv_index = 5, kpv_value = 40\<rparr>],
         arg_landing_lon_kpvs := Some [\<lparr>kpv_index = 5, kpv_value = 2\<rparr>]\<rparr>"
  let ?a2 = "example_args\<lparr>
         arg_landing_hdg_kpvs := Some [\<lparr>kpv_index = 5, kpv_value = 90\<rparr>],
         arg_landing_lat_kpvs := Some [\<lparr>kpv_index = 5, kpv_value = 51\<rparr>],
         arg_landing_lon_kpvs := Some [\<lparr>kpv_index = 5, kpv_value = 1\<rparr>]\<rparr>"
  let ?airport = "\<lparr>airport_id = 2383, airport_name = ''London Heathrow''\<rparr>"
  note ev = example_args_def example_approach_def example_api_def get_within_def
    within_slice_def example_datetime_of_index_def
  have t1: "get_approach_type (section_slice example_approach) (arg_landing_hdg_kpvs ?a1)
      (arg_touch_and_gos ?a1) (arg_go_arounds ?a1) = Some LANDING"
    by (simp add: get_approach_type_def ev)
  have l1: "get_lat_lon (section_slice example_approach) (arg_landing_lat_kpvs ?a1)
      (arg_landing_lon_kpvs ?a1) (arg_approach_lat_kpvs ?a1) (arg_approach_lon_kpvs ?a1) =
      (Some 40, Some 2)"
    by (simp add: get_lat_lon_def ev)
  have p1: "get_nearest_airport example_api 40 2 = Inl NotFoundError"
    by (simp add: ev)
  have e1: "Approaches_derive_on example_api example_datetime_of_index ?a1 ([] @ []) =
      ([Set_flight_attr []], Completed)"
    by (simp add: Approaches_derive_on_def)
  from t1 l1 p1 lookup_not_found_is_local [where approach = example_approach
      and args = ?a1 and approach_type = LANDING and lat = 40 and lon = 2
      and api = example_api and d = example_datetime_of_index and before = "[]"
      and rest = "[]"]
  have s1: "Approaches_approach example_api example_datetime_of_index ?a1 example_approach
      = ([WARNING], None, Completed)
    \<and> commits (fst (Approaches_derive_on example_api example_datetime_of_index ?a1
        ([] @ example_approach # []))) =
      commits (fst (Approaches_derive_on example_api example_datetime_of_index ?a1
        ([] @ [])))
    \<and> snd (Approaches_derive_on example_api example_datetime_of_index ?a1
        ([] @ example_approach # [])) =
      snd (Approaches_derive_on example_api example_datetime_of_index ?a1 ([] @ []))"
    by simp
  then have w1: "Approaches_derive_on example_api example_datetime_of_index ?a1
      ([] @ example_approach # []) = ([Logging WARNING, Set_flight_attr []], Completed)"
    by (simp add: Approaches_derive_on_def)
  have t2: "get_approach_type (section_slice example_approach) (arg_landing_hdg_kpvs ?a2)
      (arg_touch_and_gos ?a2) (arg_go_arounds ?a2) = Some LANDING"
    by (simp add: get_approach_type_def ev)
  have l2: "get_lat_lon (section_slice example_approach) (arg_landing_lat_kpvs ?a2)
      (arg_landing_lon_kpvs ?a2) (arg_approach_lat_kpvs ?a2) (arg_approach_lon_kpvs ?a2) =
      (Some 51, Some 1)"
    by (simp add: get_lat_lon_def ev)
  have p2: "get_nearest_airport example_api 51 1 = Inr ?airport"
    by (simp add: ev)
  have h2: "get_hdg (section_slice example_approach) (arg_landing_hdg_kpvs ?a2)
      (arg_approach_hdg_kpvs ?a2) = Some 90"
    by (simp add: get_hdg_def ev)
  have r2: "get_nearest_runway example_api (airport_id ?airport) 90
      (approach_kwargs ?a2 (section_slice example_approach) 51 1) = Inl NotFoundError"
    by (simp add: ev)
  from t2 l2 p2 h2 r2 lookup_not_found_is_local [where approach = example_approach
      and args = ?a2 and approach_type = LANDING and lat = 51 and lon = 1
      and api = example_api and d = example_datetime_of_index and airport = ?airport
      and hdg = 90]
  have w2: "Approaches_approach example_api example_datetime_of_index ?a2 example_approach =
      ([WARNING],
       Some \<lparr>approach_airport = 2383, approach_runway = None, approach_kind = LANDING,
             approach_datetime = 0\<rparr>,
       Completed)"
    by (simp add: ev)
  let ?entry = "\<lparr>approach_airport = 2383, approach_runway = None, approach_kind = LANDING,
      approach_datetime = 0\<rparr>"
  have lb: "Approaches_loop example_api example_datetime_of_index ?a2 [] =
      ([], [], Completed)"
    by simp
  have lr: "Approaches_loop example_api example_datetime_of_index ?a2 [example_approach] =
      ([WARNING], [?entry], Completed)"
    using w2 by simp
  from t2 l2 p2 h2 r2 lb lr lookup_not_found_is_local [where approach = example_approach
      and args = ?a2 and approach_type = LANDING and lat = 51 and lon = 1
      and api = example_api and d = example_datetime_of_index and airport = ?airport
      and hdg = 90 and before = "[]" and rest = "[example_approach]"
      and logs_before = "[]" and entries_before = "[]" and logs_rest = "[WARNING]"
      and entries_rest = "[?entry]"]
  have w2l: "Approaches_derive_on example_api example_datetime_of_index ?a2
      ([] @ example_approach # [example_approach]) =
      ([Logging WARNING, Logging WARNING, Set_flight_attr [?entry, ?entry]], Completed)"
    by (simp add: ev)
  have g3: "get_last kpv_index [\<lparr>kpv_index = 5, kpv_value = 40\<rparr>] =
      Some \<lparr>kpv_index = 5, kpv_value = 40\<rparr>"
    and g3': "get_last kpv_index [\<lparr>kpv_index = 5, kpv_value = 2\<rparr>] =
      Some \<lparr>kpv_index = 5, kpv_value = 2\<rparr>"
    by simp_all
  from g3 g3' p1 lookup_not_found_is_local [where api = example_api
      and landing_latitude = "[\<lparr>kpv_index = 5, kpv_value = 40\<rparr>]"
      and landing_longitude = "[\<lparr>kpv_index = 5, kpv_value = 2\<rparr>]"
      and last_latitude = "\<lparr>kpv_index = 5, kpv_value = 40\<rparr>"
      and last_longitude = "\<lparr>kpv_index = 5, kpv_value = 2\<rparr>"]
  have w3: "LandingAirport_derive example_api [\<lparr>kpv_index = 5, kpv_value = 40\<rparr>]
      [\<lparr>kpv_index = 5, kpv_value = 2\<rparr>] =
      ([Logging WARNING, Set_flight_attr None], Completed)"
    by simp
  have i4: "array_at (array \<lparr>array = [40, 40]\<rparr>) (kti_index \<lparr>kti_index = 1\<rparr>) = Inr 40"
    and i4': "array_at (array \<lparr>array = [2, 2]\<rparr>) (kti_index \<lparr>kti_index = 1\<rparr>) = Inr 2"
    by (simp_all add: array_at_def)
  from i4 i4' p1 lookup_not_found_is_local [where api = example_api
      and latitude = "\<lparr>array = [40, 40]\<rparr>" and longitude = "\<lparr>array = [2, 2]\<rparr>"
      and liftoff_kti = "\<lparr>kti_index = 1\<rparr>" and liftoffs = "[]"
      and latitude_at_liftoff = 40 and longitude_at_liftoff = 2]
  have w4: "TakeoffAirport_derive example_api [\<lparr>kti_index = 1\<rparr>] \<lparr>array = [40, 40]\<rparr>
      \<lparr>array = [2, 2]\<rparr> = ([Logging WARNING], Completed)"
    by simp
  have k5: "TakeoffRunway_kwargs None None None None =
      Inr \<lparr>kw_ilsfreq = None, kw_position = None\<rparr>"
    by (simp add: TakeoffRunway_kwargs_def)
  have r5: "get_nearest_runway example_api (airport_id ?airport)
      (kpv_value \<lparr>kpv_index = 1, kpv_value = 90\<rparr>)
      \<lparr>kw_ilsfreq = None, kw_position = None\<rparr> = Inl NotFoundError"
    by (simp add: ev)
  from k5 r5 lookup_not_found_is_local [where api = example_api
      and liftoff = None and opt_latitude = None and opt_longitude = None
      and precision = None and kwargs = "\<lparr>kw_ilsfreq = None, kw_position = None\<rparr>"
      and airport_value = ?airport and hdg_kpv = "\<lparr>kpv_index = 1, kpv_value = 90\<rparr>"
      and hdgs = "[]"]
  have w5: "TakeoffRunway_derive example_api (Attribute (Some ?airport))
      [\<lparr>kpv_index = 1, kpv_value = 90\<rparr>] None None None None =
      ([Logging WARNING], Completed)"
    by simp
  have g6: "get_last (\<lambda>s. stop (section_slice s)) [example_approach] = Some example_approach"
    by simp
  have h6: "get_last kpv_index (get_within kpv_index (section_slice example_approach)
      [\<lparr>kpv_index = 5, kpv_value = 90\<rparr>]) = Some \<lparr>kpv_index = 5, kpv_value = 90\<rparr>"
    by (simp add: ev)
  have r6: "get_nearest_runway example_api (airport_id ?airport)
      (kpv_value \<lparr>kpv_index = 5, kpv_value = 90\<rparr>)
      (LandingRunway_kwargs (section_slice example_approach) None None None None) =
      Inl NotFoundError"
    by (simp add: ev)
  from g6 h6 r6 lookup_not_found_is_local [where api = example_api
      and approach_and_landing = "[example_approach]" and landing = example_approach
      and landing_hdg = "[\<lparr>kpv_index = 5, kpv_value = 90\<rparr>]"
      and heading_kpv = "\<lparr>kpv_index = 5, kpv_value = 90\<rparr>"
      and airport_value = ?airport and landing_lat_kpvs = None and landing_lon_kpvs = None
      and approach_ilsfreq = None and precision = None]
  have w6: "LandingRunway_derive example_api [example_approach]
      [\<lparr>kpv_index = 5, kpv_value = 90\<rparr>] (Attribute (Some ?airport))
      None None None None = ([Logging WARNING], Completed)"
    by simp
  from w1 w2 w2l w3 w4 w5 w6 show ?thesis by simp
qed

subsection \<open>Pilot flying\<close>

text \<open>
  The autopilot block reads both flags from channel 1, so neither of its two seat
  branches can be taken; a node that is not empty has a first and a last entry, so the
  branch that sets \<open>None\<close> cannot be taken either. The block sets nothing.
\<close>

lemma TakeoffPilot_autopilot_nothing: "TakeoffPilot_autopilot channel_a channel_b = ([], Completed)"
proof (cases "truthy channel_a \<and> truthy channel_b")
  case True
  then have "entries channel_a \<noteq> []" by (cases channel_a) auto
  then obtain k where "get_first kpv_index (entries channel_a) = Some k"
    using get_first_Some by blast
  with True show ?thesis by (simp add: TakeoffPilot_autopilot_def)
next
  case False
  then show ?thesis by (auto simp add: TakeoffPilot_autopilot_def)
qed

lemma LandingPilot_autopilot_nothing: "LandingPilot_autopilot channel_a channel_b = ([], Completed)"
proof (cases "truthy channel_a \<and> truthy channel_b")
  case True
  then have "entries channel_a \<noteq> []" by (cases channel_a) auto
  then obtain k where "get_last kpv_index (entries channel_a) = Some k"
    using get_last_Some by blast
  with True show ?thesis by (simp add: LandingPilot_autopilot_def)
next
  case False
  then show ?thesis by (auto simp add: LandingPilot_autopilot_def)
qed

text \<open>
  The call \<open>self._controls_in_use(slice, pitch, roll)\<close> as the source writes it: four
  arguments for three parameters. Whenever the control block gets as far as the call,
  the rule ends with TypeError and sets nothing.
\<close>

lemma self_controls_in_use_raises: "self_controls_in_use sl pitch roll = Inl TypeError"
  by (simp add: self_controls_in_use_def call_through_instance_def)

lemma TakeoffPilot_derive_raises:
  assumes "sections \<noteq> []"
  shows "TakeoffPilot_derive channel_a channel_b (Some pitch_captain) (Some roll_captain) (Some pitch_fo)
           (Some roll_fo) (Some sections) = ([], Raised TypeError)"
proof -
  obtain s where "get_first (\<lambda>s. start (section_slice s)) sections = Some s"
    using get_first_Some [OF assms] by blast
  with assms show ?thesis
    by (simp add: TakeoffPilot_derive_def TakeoffPilot_derive_with_def
        TakeoffPilot_controls_def self_controls_in_use_raises then_block_def)
qed

lemma LandingPilot_derive_raises:
  assumes "sections \<noteq> []"
  shows "LandingPilot_derive (Some pitch_captain) (Some roll_captain) (Some pitch_fo)
           (Some roll_fo) (Some sections) channel_a channel_b = ([], Raised TypeError)"
proof -
  obtain s where "get_first (\<lambda>s. start (section_slice s)) sections = Some s"
    using get_first_Some [OF assms] by blast
  with assms show ?thesis
    by (simp add: LandingPilot_derive_def LandingPilot_derive_with_def
        LandingPilot_controls_def self_controls_in_use_raises then_block_def)
qed

text \<open>
  Claim C1 (the control inputs before the autopilot channels). Both seats move their
  controls during the takeoff (the landing) over the samples \<open>[0, 2)\<close>: the
  captain's pitch and the first officer's roll change, so the body of
  \<open>_controls_in_use\<close> is true of either seat. The rule does not get as far as
  setting \<open>None\<close>: the first call \<open>self._controls_in_use(slice, pitch, roll)\<close>
  raises TypeError, and nothing is set. The same holds when one seat alone moves its
  controls, where that seat is due.
\<close>

theorem pilot_controls_call_raises:
  "controls_in_use \<lparr>start = 0, stop = 2\<rparr> \<lparr>array = [0, 1]\<rparr> \<lparr>array = [0, 0]\<rparr> = Inr True
   \<and> controls_in_use \<lparr>start = 0, stop = 2\<rparr> \<lparr>array = [0, 0]\<rparr> \<lparr>array = [0, 2]\<rparr> = Inr True
   \<and> controls_in_use \<lparr>start = 0, stop = 2\<rparr> \<lparr>array = [0, 0]\<rparr> \<lparr>array = [0, 0]\<rparr> = Inr False
   \<and> TakeoffPilot_derive
        (Some [\<lparr>kpv_index = 1, kpv_value = 0\<rparr>]) (Some [\<lparr>kpv_index = 1, kpv_value = 0\<rparr>])
        (Some \<lparr>array = [0, 1]\<rparr>) (Some \<lparr>array = [0, 0]\<rparr>)
        (Some \<lparr>array = [0, 0]\<rparr>) (Some \<lparr>array = [0, 2]\<rparr>)
        (Some [\<lparr>section_slice = \<lparr>start = 0, stop = 2\<rparr>\<rparr>])
      = ([], Raised TypeError)
   \<and> LandingPilot_derive
        (Some \<lparr>array = [0, 1]\<rparr>) (Some \<lparr>array = [0, 0]\<rparr>)
        (Some \<lparr>array = [0, 0]\<rparr>) (Some \<lparr>array = [0, 2]\<rparr>)
        (Some [\<lparr>section_slice = \<lparr>start = 0, stop = 2\<rparr>\<rparr>])
        (Some [\<lparr>kpv_index = 1, kpv_value = 0\<rparr>]) (Some [\<lparr>kpv_index = 1, kpv_value = 0\<rparr>])
      = ([], Raised TypeError)
   \<and> TakeoffPilot_derive
        (Some [\<lparr>kpv_index = 1, kpv_value = 0\<rparr>]) (Some [\<lparr>kpv_index = 1, kpv_value = 0\<rparr>])
        (Some \<lparr>array = [0, 1]\<rparr>) (Some \<lparr>array = [0, 0]\<rparr>)
        (Some \<lparr>array = [0, 0]\<rparr>) (Some \<lparr>array = [0, 0]\<rparr>)
        (Some [\<lparr>section_slice = \<lparr>start = 0, stop = 2\<rparr>\<rparr>])
      = ([], Raised TypeError)"
  by (simp add: TakeoffPilot_derive_def TakeoffPilot_derive_with_def
      TakeoffPilot_controls_def LandingPilot_derive_def LandingPilot_derive_with_def
      LandingPilot_controls_def self_controls_in_use_def call_through_instance_def
      then_block_def controls_in_use_def array_slice_def)

text \<open>
  Claim C3 (the autopilot channels). The control inputs are not available, channel 1 is
  not engaged at liftoff (at touchdown) and channel 2 is: nothing is set, where First
  Officer is due. With channel 1 engaged and channel 2 not, nothing is set either, where
  Captain is due.
\<close>

theorem autopilot_channel_2_not_read:
  "TakeoffPilot_derive (Some [\<lparr>kpv_index = 10, kpv_value = 0\<rparr>])
      (Some [\<lparr>kpv_index = 10, kpv_value = 1\<rparr>]) None None None None None = ([], Completed)
   \<and> LandingPilot_derive None None None None None
      (Some [\<lparr>kpv_index = 10, kpv_value = 0\<rparr>])
      (Some [\<lparr>kpv_index = 10, kpv_value = 1\<rparr>]) = ([], Completed)
   \<and> TakeoffPilot_derive (Some [\<lparr>kpv_index = 10, kpv_value = 1\<rparr>])
      (Some [\<lparr>kpv_index = 10, kpv_value = 0\<rparr>]) None None None None None = ([], Completed)
   \<and> LandingPilot_derive None None None None None
      (Some [\<lparr>kpv_index = 10, kpv_value = 1\<rparr>])
      (Some [\<lparr>kpv_index = 10, kpv_value = 0\<rparr>]) = ([], Completed)"
  by (simp add: TakeoffPilot_derive_def TakeoffPilot_derive_with_def
      TakeoffPilot_controls_def TakeoffPilot_autopilot_def
      LandingPilot_derive_def LandingPilot_derive_with_def
      LandingPilot_controls_def LandingPilot_autopilot_def then_block_def nonzero_def)

subsection \<open>How often a rule sets its attribute\<close>

lemma TakeoffPilot_controls_once:
  "length (commits (fst (TakeoffPilot_controls in_use pitch_captain roll_captain pitch_fo
     roll_fo takeoffs))) \<le> 1"
  by (auto simp add: TakeoffPilot_controls_def split: option.splits sum.splits)

lemma LandingPilot_controls_once:
  "length (commits (fst (LandingPilot_controls in_use pitch_captain roll_captain pitch_fo
     roll_fo landings))) \<le> 1"
  by (auto simp add: LandingPilot_controls_def split: option.splits sum.splits)

lemma TakeoffPilot_derive_with_once:
  "length (commits (fst (TakeoffPilot_derive_with in_use channel_a channel_b pitch_captain
     roll_captain pitch_fo roll_fo takeoffs))) \<le> 1"
  using TakeoffPilot_controls_once [of in_use pitch_captain roll_captain pitch_fo roll_fo
      takeoffs]
  by (simp add: TakeoffPilot_derive_with_def TakeoffPilot_autopilot_nothing
      then_block_nothing)

lemma LandingPilot_derive_with_once:
  "length (commits (fst (LandingPilot_derive_with in_use pitch_captain roll_captain pitch_fo
     roll_fo landings channel_a channel_b))) \<le> 1"
  using LandingPilot_controls_once [of in_use pitch_captain roll_captain pitch_fo roll_fo
      landings]
  by (simp add: LandingPilot_derive_with_def LandingPilot_autopilot_nothing
      then_block_nothing)

lemma FlightType_derive_once:
  "length (commits (fst (FlightType_derive afr_type fast liftoffs touchdowns touch_and_gos
     groundspeed))) \<le> 1"
  by (auto simp add: FlightType_derive_def Let_def split: option.splits sum.splits)

lemma Approaches_derive_on_once:
  "commits (fst (Approaches_derive_on api d args approach_and_landing)) =
     (case Approaches_loop api d args approach_and_landing of
        (logs, approaches, Completed) \<Rightarrow> [approaches]
      | _ \<Rightarrow> [])"
  by (auto simp add: Approaches_derive_on_def commits_append commits_map_Logging
      split: prod.splits flow.splits)

lemma airports_once:
  "length (commits (fst (LandingAirport_derive api landing_latitude landing_longitude))) \<le> 1"
  "length (commits (fst (TakeoffAirport_derive api liftoff latitude longitude))) \<le> 1"
  by (auto simp add: LandingAirport_derive_def TakeoffAirport_derive_def
      split: option.splits sum.splits error.splits list.splits)

lemma runways_once:
  "length (commits (fst (TakeoffRunway_derive api airport hdg opt_liftoff opt_latitude
     opt_longitude precision))) \<le> 1"
  "length (commits (fst (LandingRunway_derive api approach_and_landing landing_hdg airport
     landing_lat_kpvs landing_lon_kpvs approach_ilsfreq precision))) \<le> 1"
  by (auto simp add: TakeoffRunway_derive_def LandingRunway_derive_def
      split: option.splits sum.splits error.splits list.splits)

lemma selections_once:
  "length (commits (fst (Duration_derive takeoff_dt landing_dt))) \<le> 1"
  "length (commits (fst (AnalysisDatetime_derive now start_attr))) \<le> 1"
  "length (commits (fst (FlightID_derive flight_id))) \<le> 1"
  "length (commits (fst (FlightNumber_derive num))) \<le> 1"
  "length (commits (fst (OffBlocksDatetime_derive d turning hz start_dt))) \<le> 1"
  "length (commits (fst (OnBlocksDatetime_derive d turning hz start_dt))) \<le> 1"
  "length (commits (fst (TakeoffDatetime_derive d liftoff frequency start_dt))) \<le> 1"
  "length (commits (fst (LandingDatetime_derive d start_dt touchdown frequency))) \<le> 1"
  "length (commits (fst (TakeoffFuel_derive afr_fuel fuel_qty))) \<le> 1"
  "length (commits (fst (LandingFuel_derive afr_fuel fuel_qty))) \<le> 1"
  "length (commits (fst (TakeoffGrossWeight_derive gross_weight))) \<le> 1"
  "length (commits (fst (LandingGrossWeight_derive gross_weight))) \<le> 1"
  "length (commits (fst (V2_derive weight_touchdown flap_touchdown))) \<le> 1"
  "length (commits (fst (Vapp_derive weight_touchdown flap_touchdown))) \<le> 1"
  "length (commits (fst (Vref_derive aircraft_model weight_touchdown flap_touchdown))) \<le> 1"
  "length (commits (fst (Version_derive version start_attr))) \<le> 1"
  by (auto simp add: Duration_derive_def AnalysisDatetime_derive_def FlightID_derive_def
      FlightNumber_derive_def OffBlocksDatetime_derive_def OnBlocksDatetime_derive_def
      TakeoffDatetime_derive_def LandingDatetime_derive_def TakeoffFuel_derive_def
      LandingFuel_derive_def TakeoffGrossWeight_derive_def LandingGrossWeight_derive_def
      V2_derive_def Vapp_derive_def Vref_derive_def Version_derive_def
      split: option.splits sum.splits)

text \<open>
  Claim C5 (an attribute is set at most once). On every input, each rule calls
  \<open>set_flight_attr\<close> at most once, also when it ends with an exception. The two
  pilot rules do so whatever the calls of \<open>_controls_in_use\<close> answer: the autopilot
  block, which follows a control block that has set \<open>None\<close>, sets nothing. The value
  set is a whole one: a seat or \<open>None\<close>, and for Approaches the list as the completed
  loop has built it (nothing is set when the loop ends with an exception).
\<close>

theorem rules_set_at_most_once:
  "length (commits (fst (TakeoffPilot_derive_with in_use channel_a channel_b pitch_captain
     roll_captain pitch_fo roll_fo sections))) \<le> 1
   \<and> length (commits (fst (LandingPilot_derive_with in_use pitch_captain roll_captain pitch_fo
     roll_fo sections channel_a channel_b))) \<le> 1
   \<and> length (commits (fst (TakeoffPilot_derive channel_a channel_b pitch_captain
     roll_captain pitch_fo roll_fo sections))) \<le> 1
   \<and> length (commits (fst (LandingPilot_derive pitch_captain roll_captain pitch_fo
     roll_fo sections channel_a channel_b))) \<le> 1
   \<and> length (commits (fst (FlightType_derive afr_type fast liftoffs touchdowns touch_and_gos
     groundspeed))) \<le> 1
   \<and> commits (fst (Approaches_derive api d args)) =
     (case Approaches_loop api d args (arg_approach_and_landing args) of
        (logs, approaches, Completed) \<Rightarrow> [approaches]
      | _ \<Rightarrow> [])
   \<and> length (commits (fst (Approaches_derive api d args))) \<le> 1
   \<and> length (commits (fst (LandingAirport_derive api landing_latitude landing_longitude))) \<le> 1
   \<and> length (commits (fst (TakeoffAirport_derive api liftoff latitude longitude))) \<le> 1
   \<and> length (commits (fst (TakeoffRunway_derive api airport hdg opt_liftoff opt_latitude
     opt_longitude precision))) \<le> 1
   \<and> length (commits (fst (LandingRunway_derive api approach_and_landing landing_hdg airport
     landing_lat_kpvs landing_lon_kpvs approach_ilsfreq precision))) \<le> 1
   \<and> length (commits (fst (Duration_derive takeoff_dt landing_dt))) \<le> 1
   \<and> length (commits (fst (AnalysisDatetime_derive now start_attr))) \<le> 1
   \<and> length (commits (fst (FlightID_derive flight_id))) \<le> 1
   \<and> length (commits (fst (FlightNumber_derive num))) \<le> 1
   \<and> length (commits (fst (OffBlocksDatetime_derive d turning hz start_dt))) \<le> 1
   \<and> length (commits (fst (OnBlocksDatetime_derive d turning hz start_dt))) \<le> 1
   \<and> length (commits (fst (TakeoffDatetime_derive d liftoff frequency start_dt))) \<le> 1
   \<and> length (commits (fst (LandingDatetime_derive d start_dt touchdown frequency))) \<le> 1
   \<and> length (commits (fst (TakeoffFuel_derive afr_fuel fuel_qty))) \<le> 1
   \<and> length (commits (fst (LandingFuel_derive afr_fuel fuel_qty))) \<le> 1
   \<and> length (commits (fst (TakeoffGrossWeight_derive gross_weight))) \<le> 1
   \<and> length (commits (fst (LandingGrossWeight_derive gross_weight))) \<le> 1
   \<and> length (commits (fst (V2_derive weight_touchdown flap_touchdown))) \<le> 1
   \<and> length (commits (fst (Vapp_derive weight_touchdown flap_touchdown))) \<le> 1
   \<and> length (commits (fst (Vref_derive aircraft_model weight_touchdown flap_touchdown))) \<le> 1
   \<and> length (commits (fst (Version_derive version start_attr))) \<le> 1"
proof -
  have a: "commits (fst (Approaches_derive api d args)) =
     (case Approaches_loop api d args (arg_approach_and_landing args) of
        (logs, approaches, Completed) \<Rightarrow> [approaches]
      | _ \<Rightarrow> [])"
    by (simp add: Approaches_derive_def Approaches_derive_on_once)
  then have b: "length (commits (fst (Approaches_derive api d args))) \<le> 1"
    by (simp split: prod.splits flow.splits)
  show ?thesis
    unfolding TakeoffPilot_derive_def LandingPilot_derive_def
    by (intro conjI a b TakeoffPilot_derive_with_once LandingPilot_derive_with_once
        FlightType_derive_once airports_once runways_once selections_once)
qed

text \<open>
  Both seats move their controls and only autopilot channel 2 is engaged: \<open>None\<close> is
  the one value set.
\<close>

theorem rules_set_at_most_once_witness:
  "commits (fst (TakeoffPilot_derive_with controls_in_use
      (Some [\<lparr>kpv_index = 10, kpv_value = 0\<rparr>]) (Some [\<lparr>kpv_index = 10, kpv_value = 1\<rparr>])
      (Some \<lparr>array = [0, 1]\<rparr>) (Some \<lparr>array = [0, 0]\<rparr>)
      (Some \<lparr>array = [0, 0]\<rparr>) (Some \<lparr>array = [0, 2]\<rparr>)
      (Some [\<lparr>section_slice = \<lparr>start = 0, stop = 2\<rparr>\<rparr>]))) = [None]
   \<and> length (commits (fst (TakeoffPilot_derive_with controls_in_use
      (Some [\<lparr>kpv_index = 10, kpv_value = 0\<rparr>]) (Some [\<lparr>kpv_index = 10, kpv_value = 1\<rparr>])
      (Some \<lparr>array = [0, 1]\<rparr>) (Some \<lparr>array = [0, 0]\<rparr>)
      (Some \<lparr>array = [0, 0]\<rparr>) (Some \<lparr>array = [0, 2]\<rparr>)
      (Some [\<lparr>section_slice = \<lparr>start = 0, stop = 2\<rparr>\<rparr>])))) \<le> 1"
proof -
  have "commits (fst (TakeoffPilot_derive_with controls_in_use
      (Some [\<lparr>kpv_index = 10, kpv_value = 0\<rparr>]) (Some [\<lparr>kpv_index = 10, kpv_value = 1\<rparr>])
      (Some \<lparr>array = [0, 1]\<rparr>) (Some \<lparr>array = [0, 0]\<rparr>)
      (Some \<lparr>array = [0, 0]\<rparr>) (Some \<lparr>array = [0, 2]\<rparr>)
      (Some [\<lparr>section_slice = \<lparr>start = 0, stop = 2\<rparr>\<rparr>]))) = [None]"
    by (simp add: TakeoffPilot_derive_with_def TakeoffPilot_controls_def
        TakeoffPilot_autopilot_nothing then_block_nothing controls_in_use_def
        array_slice_def)
  with rules_set_at_most_once [where in_use = controls_in_use
      and channel_a = "Some [\<lparr>kpv_index = 10, kpv_value = 0\<rparr>]"
      and channel_b = "Some [\<lparr>kpv_index = 10, kpv_value = 1\<rparr>]"
      and pitch_captain = "Some \<lparr>array = [0, 1]\<rparr>" and roll_captain = "Some \<lparr>array = [0, 0]\<rparr>"
      and pitch_fo = "Some \<lparr>array = [0, 0]\<rparr>" and roll_fo = "Some \<lparr>array = [0, 2]\<rparr>"
      and sections = "Some [\<lparr>section_slice = \<lparr>start = 0, stop = 2\<rparr>\<rparr>]",
      THEN conjunct1]
  show ?thesis by simp
qed

end
